theory Spec2Isabelle
  imports Complex_Main "HOL-Library.Word"
begin

section \<open>The event recorder of \<^verbatim>\<open>Custom/EventRecorder/EventRecorder.cpp\<close>\<close>

text \<open>
  The recorder is a singleton object whose fields are mutated under one mutex. The model
  is sequential: every public operation is a function from the state before the call to
  the state after it (and the boolean result for \<^verbatim>\<open>StartSession\<close> and
  \<^verbatim>\<open>StopSession\<close>). What the operations read from outside the object is an
  explicit argument: the steady clock, the wall-clock stamp of the file name, the
  outcome of creating the directory and of opening the file, the configuration.

  Modelling decisions:
  \<^item> \<^verbatim>\<open>uint32\<close> and \<^verbatim>\<open>uint8\<close> are \<open>32 word\<close> and \<open>8 word\<close>, so
    \<^verbatim>\<open>_eventCount++\<close> wraps around as in the source;
  \<^item> \<^verbatim>\<open>float\<close> is the type \<open>float32\<close> below, IEEE 754 binary32: every
    operation rounds its exact result to the nearest value, ties to even, with subnormal
    numbers, signed zeros, infinities and NaN (one NaN, without payload); a product is
    rounded before it is added, as without contraction and without excess precision;
  \<^item> the file system is a map from a path to the lines a file holds, each line without
    its terminating newline; the stream \<^verbatim>\<open>_outFile\<close> is the path it is open on,
    or \<open>None\<close> when it is closed; as every line is flushed, a write reaches the map
    at once, and a write to an open stream is taken to succeed;
  \<^item> the operational log is the list of the messages logged so far.
\<close>

subsection \<open>Machine types and the entities of the host\<close>

type_synonym uint32 = "32 word"
type_synonym uint8 = "8 word"

subsection \<open>Single-precision floating point\<close>

text \<open>
  Modelled from the spec: \<^verbatim>\<open>float\<close> is a type of the language and not of the
  sources. A finite number is its sign, a magnitude \<open>m\<close> (a natural number, odd or 0)
  and an exponent \<open>e\<close>, standing for \<open>\<plusminus> m \<sqdot> 2\<^sup>e\<close>; zero is \<open>Finite s 0 0\<close>.
  The flag of \<open>Finite\<close> and of \<open>Infinity\<close> is true for the negative sign. Magnitudes
  are kept in \<open>int\<close> and are never negative.
\<close>

datatype float32 = Finite bool int int | Infinity bool | NaN

text \<open>The number of binary digits of a magnitude, and a magnitude with its exponent
  brought to the odd form.\<close>

function bit_length :: "int \<Rightarrow> int" where
  "bit_length n = (if n \<le> 0 then 0 else 1 + bit_length (n div 2))"
  by pat_completeness auto
termination
  by (relation "measure nat") auto

function odd_part :: "int \<Rightarrow> int \<Rightarrow> int \<times> int" where
  "odd_part m e =
     (if m \<le> 0 then (0, 0)
      else if even m then odd_part (m div 2) (e + 1)
      else (m, e))"
  by pat_completeness auto
termination
  by (relation "measure (\<lambda>(m, e). nat m)") auto

text \<open>Rounding of the exact value \<open>\<plusminus> m \<sqdot> 2\<^sup>e\<close> to binary32. The exponent of the
  last place kept is \<open>u\<close>: 24 digits from the leading one, and not below
  \<open>2\<^sup>-\<^sup>1\<^sup>4\<^sup>9\<close>, the smallest subnormal number. The digits below \<open>u\<close> are rounded to
  nearest, a tie to the even neighbour; a result of \<open>2\<^sup>1\<^sup>2\<^sup>8\<close> or more is infinite.\<close>

definition last_place :: "int \<Rightarrow> int \<Rightarrow> int" where
  "last_place m e = max (bit_length m - 1 + e - 23) (- 149)"

definition round_half_even :: "int \<Rightarrow> nat \<Rightarrow> int" where
  "round_half_even m k =
     (if 2 ^ (k - 1) < m mod 2 ^ k \<or> (m mod 2 ^ k = 2 ^ (k - 1) \<and> odd (m div 2 ^ k))
      then m div 2 ^ k + 1 else m div 2 ^ k)"

definition digits_at :: "int \<Rightarrow> int \<Rightarrow> int \<Rightarrow> int" where
  "digits_at m e u =
     (if u \<le> e then m * 2 ^ nat (e - u) else round_half_even m (nat (u - e)))"

definition pack32 :: "bool \<Rightarrow> int \<Rightarrow> int \<Rightarrow> float32" where
  "pack32 sg q u =
     (if q = 0 then Finite sg 0 0
      else if 128 < bit_length q + u then Infinity sg
      else (case odd_part q u of (m', e') \<Rightarrow> Finite sg m' e'))"

definition round32 :: "bool \<Rightarrow> int \<Rightarrow> int \<Rightarrow> float32" where
  "round32 sg m e =
     (if m = 0 then Finite sg 0 0
      else pack32 sg (digits_at m e (last_place m e)) (last_place m e))"

definition with_sign :: "bool \<Rightarrow> int \<Rightarrow> int" where
  "with_sign sg m = (if sg then - m else m)"

text \<open>The float nearest to \<open>m \<sqdot> 2\<^sup>e\<close>, for writing constants; \<open>fzero\<close> is
  \<^verbatim>\<open>0.0f\<close>.\<close>

definition f32 :: "int \<Rightarrow> int \<Rightarrow> float32" where
  "f32 m e = round32 (m < 0) \<bar>m\<bar> e"

definition fzero :: float32 where
  "fzero = Finite False 0 0"

fun fneg :: "float32 \<Rightarrow> float32" where
  "fneg (Finite sg m e) = Finite (\<not> sg) m e"
| "fneg (Infinity sg) = Infinity (\<not> sg)"
| "fneg NaN = NaN"

text \<open>Addition: the exact sum of the two numbers, written over the smaller exponent, is
  rounded; an exact zero has the negative sign only when both operands have it.\<close>

fun fadd :: "float32 \<Rightarrow> float32 \<Rightarrow> float32" where
  "fadd NaN y = NaN"
| "fadd x NaN = NaN"
| "fadd (Infinity s) (Infinity t) = (if s = t then Infinity s else NaN)"
| "fadd (Infinity s) (Finite t n f) = Infinity s"
| "fadd (Finite s m e) (Infinity t) = Infinity t"
| "fadd (Finite s m e) (Finite t n f) =
     (let c = with_sign s (m * 2 ^ nat (e - min e f)) +
              with_sign t (n * 2 ^ nat (f - min e f))
      in if c = 0 then Finite (s \<and> t) 0 0
         else round32 (c < 0) \<bar>c\<bar> (min e f))"

definition fsub :: "float32 \<Rightarrow> float32 \<Rightarrow> float32" where
  "fsub x y = fadd x (fneg y)"

fun fmul :: "float32 \<Rightarrow> float32 \<Rightarrow> float32" where
  "fmul NaN y = NaN"
| "fmul x NaN = NaN"
| "fmul (Infinity s) (Infinity t) = Infinity (s \<noteq> t)"
| "fmul (Infinity s) (Finite t n f) = (if n = 0 then NaN else Infinity (s \<noteq> t))"
| "fmul (Finite s m e) (Infinity t) = (if m = 0 then NaN else Infinity (s \<noteq> t))"
| "fmul (Finite s m e) (Finite t n f) = round32 (s \<noteq> t) (m * n) (e + f)"

text \<open>The comparisons \<^verbatim>\<open><\<close>, \<^verbatim>\<open><=\<close> and \<^verbatim>\<open>>\<close>: false when an operand is
  NaN; the two zeros are equal.\<close>

fun flt :: "float32 \<Rightarrow> float32 \<Rightarrow> bool" where
  "flt NaN y = False"
| "flt x NaN = False"
| "flt (Infinity s) (Infinity t) = (s \<and> \<not> t)"
| "flt (Infinity s) (Finite t n f) = s"
| "flt (Finite s m e) (Infinity t) = (\<not> t)"
| "flt (Finite s m e) (Finite t n f) =
     (with_sign s (m * 2 ^ nat (e - min e f)) < with_sign t (n * 2 ^ nat (f - min e f)))"

fun fle :: "float32 \<Rightarrow> float32 \<Rightarrow> bool" where
  "fle NaN y = False"
| "fle x NaN = False"
| "fle (Infinity s) (Infinity t) = (s \<or> \<not> t)"
| "fle (Infinity s) (Finite t n f) = s"
| "fle (Finite s m e) (Infinity t) = (\<not> t)"
| "fle (Finite s m e) (Finite t n f) =
     (with_sign s (m * 2 ^ nat (e - min e f)) \<le> with_sign t (n * 2 ^ nat (f - min e f)))"

definition fgt :: "float32 \<Rightarrow> float32 \<Rightarrow> bool" where
  "fgt x y = flt y x"



text \<open>
  Modelled from the spec: the host's \<^verbatim>\<open>Unit\<close> class is outside the sources at
  hand; a unit is the record of what the recorder reads from it (map id, instance id,
  position, name, the printed GUID, the template entry and the two type tests).
  A \<^verbatim>\<open>Unit*\<close> that may be null is a \<open>Unit option\<close>.
\<close>

record Unit =
  GetMapId :: uint32
  GetInstanceId :: uint32
  GetPositionX :: float32
  GetPositionY :: float32
  GetPositionZ :: float32
  GetName :: string
  GetGUIDString :: string
  GetEntry :: uint32
  IsCreature :: bool
  IsPlayer :: bool

text \<open>
  Modelled from the spec: \<^verbatim>\<open>SpellInfo\<close>, \<^verbatim>\<open>Aura\<close> and
  \<^verbatim>\<open>AuraApplication\<close> are host classes too. Of a spell the recorder reads the id and
  \<^verbatim>\<open>SpellName[0]\<close>, a C string that may be null; of an aura its spell, of an aura
  application its base aura, both nullable.
\<close>

record SpellInfo =
  Id :: uint32
  SpellName0 :: "string option"

datatype Aura = Aura (GetSpellInfo: "SpellInfo option")

datatype AuraApplication = AuraApplication (GetBase: "Aura option")

subsection \<open>The operational log\<close>

text \<open>One constructor for each \<^verbatim>\<open>LOG_INFO\<close> and \<^verbatim>\<open>LOG_ERROR\<close> call of the file,
  with the arguments of the call.\<close>

datatype LogMsg =
    LogEnabled string uint32
  | LogDirFailed string
  | LogOpenFailed string
  | LogStarted string uint32 float32 string
  | LogStopped string int uint32
  | LogMaxEvents uint32 string

subsection \<open>The state of the recorder\<close>

record EventRecorder =
  enabled :: bool
  active :: bool
  sessionName :: string
  outputDir :: string
  maxEvents :: uint32
  eventCount :: uint32
  mapFilter :: uint32
  instanceFilter :: uint32
  radius :: float32
  recorderX :: float32
  recorderY :: float32
  recorderZ :: float32
  recorderMapId :: uint32
  sessionStart :: int
  outFile :: "string option"
  files :: "string \<rightharpoonup> string list"
  serverLog :: "LogMsg list"

text \<open>The member initialisers of the header; no file exists and nothing is logged.\<close>

definition initialRecorder :: EventRecorder where
  "initialRecorder =
     \<lparr> enabled = False, active = False, sessionName = [], outputDir = [],
       maxEvents = 100000, eventCount = 0, mapFilter = 0, instanceFilter = 0,
       radius = fzero, recorderX = fzero, recorderY = fzero, recorderZ = fzero,
       recorderMapId = 0,
       sessionStart = 0, outFile = None, files = Map.empty, serverLog = [] \<rparr>"

text \<open>The configuration snapshot that \<^verbatim>\<open>sConfigMgr\<close> answers from.\<close>

record Config =
  cfgEnable :: bool
  cfgOutputDir :: string
  cfgMaxEvents :: uint32
  cfgDefaultRadius :: float32

definition LoadConfig :: "Config \<Rightarrow> EventRecorder \<Rightarrow> EventRecorder" where
  "LoadConfig cfg s =
     (let s1 = s\<lparr>enabled := cfgEnable cfg, outputDir := cfgOutputDir cfg,
                  maxEvents := cfgMaxEvents cfg\<rparr>;
          defaultRadius = cfgDefaultRadius cfg;
          s2 = (if fgt defaultRadius fzero then s1\<lparr>radius := defaultRadius\<rparr> else s1)
      in if enabled s2
         then s2\<lparr>serverLog := serverLog s2 @ [LogEnabled (outputDir s2) (maxEvents s2)]\<rparr>
         else s2)"

definition IsEnabled :: "EventRecorder \<Rightarrow> bool" where
  "IsEnabled s = enabled s"

definition IsActive :: "EventRecorder \<Rightarrow> bool" where
  "IsActive s = active s"

definition IsActiveForMap :: "uint32 \<Rightarrow> uint32 \<Rightarrow> EventRecorder \<Rightarrow> bool" where
  "IsActiveForMap mapId instanceId s =
     (if \<not> active s then False
      else if mapFilter s \<noteq> 0 \<and> mapFilter s \<noteq> mapId then False
      else if instanceFilter s \<noteq> 0 \<and> instanceFilter s \<noteq> instanceId then False
      else True)"

subsection \<open>Formatting\<close>

text \<open>
  Modelled from the spec: \<^verbatim>\<open>Acore::StringFormat\<close> is the repository's wrapper of
  the \<^verbatim>\<open>fmt\<close> library and is not among the sources at hand. \<open>decimal\<close> is
  what \<^verbatim>\<open>{}\<close> prints for an unsigned integer, \<open>fixed3\<close> what \<^verbatim>\<open>{:.3f}\<close>
  prints for a number of seconds given as a count of milliseconds (three decimals).
\<close>

fun decimal :: "nat \<Rightarrow> string" where
  "decimal n =
     (if n < 10 then [''0123456789'' ! n]
      else decimal (n div 10) @ [''0123456789'' ! (n mod 10)])"

definition fixed3 :: "int \<Rightarrow> string" where
  "fixed3 ms =
     (let a = nat \<bar>ms\<bar>; f = a mod 1000
      in (if ms < 0 then ''-'' else []) @ decimal (a div 1000) @ ''.'' @
         [''0123456789'' ! (f div 100), ''0123456789'' ! (f div 10 mod 10),
          ''0123456789'' ! (f mod 10)])"

text \<open>\<^verbatim>\<open>EscapeJson\<close>: the loop over the characters of the input, one equation for
  each case of the switch.\<close>

fun EscapeJson :: "string \<Rightarrow> string" where
  "EscapeJson [] = []"
| "EscapeJson (c # cs) =
     (if c = CHR 0x22 then [CHR 0x5C, CHR 0x22]
      else if c = CHR 0x5C then [CHR 0x5C, CHR 0x5C]
      else if c = CHR 0x0A then [CHR 0x5C, CHR ''n'']
      else if c = CHR 0x0D then [CHR 0x5C, CHR ''r'']
      else if c = CHR 0x09 then [CHR 0x5C, CHR ''t'']
      else [c]) @ EscapeJson cs"

text \<open>\<^verbatim>\<open>AppenderJsonl::JsonEscape\<close> of \<^verbatim>\<open>common/Logging/AppenderJsonl.cpp\<close>, the
  escaping of the structured log appender: it has the five cases above, two more for
  backspace and form feed, and prints every other character below \<^verbatim>\<open>0x20\<close> as
  \<^verbatim>\<open>\u00XX\<close> (\<^verbatim>\<open>snprintf\<close> with \<^verbatim>\<open>%04x\<close>).\<close>

definition hex4 :: "nat \<Rightarrow> string" where
  "hex4 n = [''0123456789abcdef'' ! (n div 4096 mod 16), ''0123456789abcdef'' ! (n div 256 mod 16),
             ''0123456789abcdef'' ! (n div 16 mod 16), ''0123456789abcdef'' ! (n mod 16)]"

fun JsonEscape :: "string \<Rightarrow> string" where
  "JsonEscape [] = []"
| "JsonEscape (c # cs) =
     (if c = CHR 0x22 then [CHR 0x5C, CHR 0x22]
      else if c = CHR 0x5C then [CHR 0x5C, CHR 0x5C]
      else if c = CHR 0x08 then [CHR 0x5C, CHR ''b'']
      else if c = CHR 0x0C then [CHR 0x5C, CHR ''f'']
      else if c = CHR 0x0A then [CHR 0x5C, CHR ''n'']
      else if c = CHR 0x0D then [CHR 0x5C, CHR ''r'']
      else if c = CHR 0x09 then [CHR 0x5C, CHR ''t'']
      else if of_char c < (0x20 :: nat) then [CHR 0x5C, CHR ''u''] @ hex4 (of_char c)
      else [c]) @ JsonEscape cs"

definition FormatUnit :: "Unit option \<Rightarrow> string" where
  \<open>FormatUnit unit =
     (case unit of
        None \<Rightarrow> ''null''
      | Some u \<Rightarrow>
          (let name = EscapeJson (GetName u); guid = GetGUIDString u
           in if IsCreature u then
                ''{"type":"creature","entry":'' @ decimal (unat (GetEntry u)) @
                '',"name":"'' @ name @ ''","guid":"'' @ guid @ ''"}''
              else if IsPlayer u then
                ''{"type":"player","name":"'' @ name @ ''","guid":"'' @ guid @ ''"}''
              else
                ''{"type":"unit","entry":'' @ decimal (unat (GetEntry u)) @
                '',"name":"'' @ name @ ''","guid":"'' @ guid @ ''"}''))\<close>

subsection \<open>Time, filter and writer\<close>

text \<open>\<^verbatim>\<open>GetSessionTime\<close>: the steady clock is read in nanoseconds, the difference to
  the start of the session is cast to whole milliseconds (rounding towards zero), and the
  result is that count divided by 1000; the model returns the count of milliseconds.\<close>

definition GetSessionTime :: "int \<Rightarrow> EventRecorder \<Rightarrow> int" where
  "GetSessionTime now s =
     (let d = now - sessionStart s
      in if 0 \<le> d then d div 1000000 else - ((- d) div 1000000))"

definition PassesFilters :: "Unit option \<Rightarrow> EventRecorder \<Rightarrow> bool" where
  "PassesFilters unit s =
     (case unit of
        None \<Rightarrow> False
      | Some u \<Rightarrow>
          if mapFilter s \<noteq> 0 \<and> GetMapId u \<noteq> mapFilter s then False
          else if fgt (radius s) fzero \<and> GetMapId u = recorderMapId s then
            (let dx = fsub (GetPositionX u) (recorderX s);
                 dy = fsub (GetPositionY u) (recorderY s);
                 dz = fsub (GetPositionZ u) (recorderZ s);
                 distSq = fadd (fadd (fmul dx dx) (fmul dy dy)) (fmul dz dz)
             in if fgt distSq (fmul (radius s) (radius s)) then False else True)
          else True)"

text \<open>The lines of the file a stream is open on (none when the path is absent).\<close>

definition linesOf :: "string \<Rightarrow> EventRecorder \<Rightarrow> string list" where
  "linesOf p s = (case files s p of None \<Rightarrow> [] | Some ls \<Rightarrow> ls)"

definition WriteEvent :: "string \<Rightarrow> EventRecorder \<Rightarrow> EventRecorder" where
  "WriteEvent jsonLine s =
     (case outFile s of
        None \<Rightarrow> s
      | Some p \<Rightarrow>
          if eventCount s \<ge> maxEvents s then
            (if eventCount s = maxEvents s
             then s\<lparr>serverLog := serverLog s @ [LogMaxEvents (maxEvents s) (sessionName s)],
                    eventCount := eventCount s + 1\<rparr>
             else s)
          else s\<lparr>files := (files s)(p \<mapsto> linesOf p s @ [jsonLine]),
                 eventCount := eventCount s + 1\<rparr>)"

subsection \<open>Session management\<close>

text \<open>What \<^verbatim>\<open>StartSession\<close> reads from outside the object: whether
  \<^verbatim>\<open>create_directories\<close> succeeds, whether the file can be opened, the local time
  printed by \<^verbatim>\<open>strftime\<close>, the steady clock and the configured default radius.\<close>

record StartEnv =
  dirCreated :: bool
  fileOpens :: bool
  timeBuf :: string
  startNow :: int
  envDefaultRadius :: float32

text \<open>\<^verbatim>\<open>_outFile.open(filename, out | trunc)\<close>: a stream that is already open stays
  on its file and the call fails (the error flag that this sets on the stream is not
  represented); otherwise the call creates the file empty, or truncates it, when the
  file system allows it.\<close>

definition openTrunc :: "string \<Rightarrow> bool \<Rightarrow> EventRecorder \<Rightarrow> EventRecorder" where
  "openTrunc filename ok s =
     (if outFile s \<noteq> None then s
      else if ok then s\<lparr>outFile := Some filename, files := (files s)(filename \<mapsto> [])\<rparr>
      else s)"

text \<open>The file name, \<^verbatim>\<open>{}/{}_{}.jsonl\<close> of the directory, the session name and
  the time stamp.\<close>

definition sessionFileName :: "string \<Rightarrow> string \<Rightarrow> string \<Rightarrow> string" where
  "sessionFileName dir name stamp = dir @ ''/'' @ name @ ''_'' @ stamp @ ''.jsonl''"

definition startEventLine :: "string \<Rightarrow> uint32 \<Rightarrow> string \<Rightarrow> string" where
  \<open>startEventLine session mapF filename =
     ''{"t":0.000,"event":"record_start","session":"'' @ session @ ''","map":'' @
     decimal (unat mapF) @ '',"file":"'' @ filename @ ''"}''\<close>

definition StartSession ::
  "string \<Rightarrow> Unit option \<Rightarrow> uint32 \<Rightarrow> float32 \<Rightarrow> StartEnv \<Rightarrow> EventRecorder \<Rightarrow>
     bool \<times> EventRecorder"
where
  "StartSession name player mapF rad env s =
     (if active s then (False, s)
      else if \<not> enabled s then (False, s)
      else if \<not> dirCreated env
        then (False, s\<lparr>serverLog := serverLog s @ [LogDirFailed (outputDir s)]\<rparr>)
      else
        (let filename = sessionFileName (outputDir s) name (timeBuf env);
             s1 = openTrunc filename (fileOpens env) s
         in if outFile s1 = None
            then (False, s1\<lparr>serverLog := serverLog s1 @ [LogOpenFailed filename]\<rparr>)
            else
              (let s2 = s1\<lparr>sessionName := name, eventCount := 0, mapFilter := mapF\<rparr>;
                   s3 = (case player of
                           None \<Rightarrow> s2
                         | Some p \<Rightarrow>
                             (let s' = s2\<lparr>recorderX := GetPositionX p,
                                          recorderY := GetPositionY p,
                                          recorderZ := GetPositionZ p,
                                          recorderMapId := GetMapId p,
                                          instanceFilter := GetInstanceId p\<rparr>
                              in if mapF = 0 then s'\<lparr>mapFilter := GetMapId p\<rparr> else s'));
                   s4 = (if fgt rad fzero then s3\<lparr>radius := rad\<rparr>
                         else if fle (radius s3) fzero
                           then s3\<lparr>radius := envDefaultRadius env\<rparr>
                         else s3);
                   s5 = s4\<lparr>sessionStart := startNow env, active := True\<rparr>;
                   s6 = WriteEvent (startEventLine (sessionName s5) (mapFilter s5) filename) s5
               in (True, s6\<lparr>serverLog := serverLog s6 @
                     [LogStarted (sessionName s6) (mapFilter s6) (radius s6) filename]\<rparr>))))"

definition stopEventLine :: "int \<Rightarrow> string \<Rightarrow> uint32 \<Rightarrow> string" where
  \<open>stopEventLine duration session n =
     ''{"t":'' @ fixed3 duration @ '',"event":"record_stop","session":"'' @ session @
     ''","duration":'' @ fixed3 duration @ '',"events_captured":'' @ decimal (unat n) @ ''}''\<close>

definition StopSession :: "int \<Rightarrow> EventRecorder \<Rightarrow> bool \<times> EventRecorder" where
  "StopSession now s =
     (if \<not> active s then (False, s)
      else
        (let duration = GetSessionTime now s;
             s1 = WriteEvent (stopEventLine duration (sessionName s) (eventCount s)) s;
             s2 = s1\<lparr>outFile := None, active := False\<rparr>;
             s3 = s2\<lparr>serverLog := serverLog s2 @
                       [LogStopped (sessionName s2) duration (eventCount s2)]\<rparr>
         in (True, s3\<lparr>mapFilter := 0, instanceFilter := 0, radius := fzero,
                       recorderX := fzero, recorderY := fzero, recorderZ := fzero,
                       recorderMapId := 0\<rparr>)))"

subsection \<open>Recording\<close>

text \<open>Each \<^verbatim>\<open>Record*\<close> method has the steady clock as its first argument. The
  line of each kind of event is a definition of its own, so that it can be named.\<close>

definition enterCombatLine :: "int \<Rightarrow> Unit option \<Rightarrow> Unit option \<Rightarrow> string" where
  \<open>enterCombatLine t unit victim =
     ''{"t":'' @ fixed3 t @ '',"event":"enter_combat","source":'' @ FormatUnit unit @
     '',"target":'' @ FormatUnit victim @ ''}''\<close>

definition RecordEnterCombat ::
  "int \<Rightarrow> Unit option \<Rightarrow> Unit option \<Rightarrow> EventRecorder \<Rightarrow> EventRecorder" where
  "RecordEnterCombat now unit victim s =
     (if \<not> PassesFilters unit s then s
      else WriteEvent (enterCombatLine (GetSessionTime now s) unit victim) s)"

definition leaveCombatLine :: "int \<Rightarrow> Unit option \<Rightarrow> string" where
  \<open>leaveCombatLine t creature =
     ''{"t":'' @ fixed3 t @ '',"event":"leave_combat","source":'' @ FormatUnit creature @ ''}''\<close>

definition RecordLeaveCombat :: "int \<Rightarrow> Unit option \<Rightarrow> EventRecorder \<Rightarrow> EventRecorder" where
  "RecordLeaveCombat now creature s =
     (if \<not> PassesFilters creature s then s
      else WriteEvent (leaveCombatLine (GetSessionTime now s) creature) s)"

definition evadeLine :: "int \<Rightarrow> Unit option \<Rightarrow> uint8 \<Rightarrow> string" where
  \<open>evadeLine t unit evadeReason =
     ''{"t":'' @ fixed3 t @ '',"event":"evade","source":'' @ FormatUnit unit @
     '',"reason":'' @ decimal (unat evadeReason) @ ''}''\<close>

definition RecordEvade :: "int \<Rightarrow> Unit option \<Rightarrow> uint8 \<Rightarrow> EventRecorder \<Rightarrow> EventRecorder" where
  "RecordEvade now unit evadeReason s =
     (if \<not> PassesFilters unit s then s
      else WriteEvent (evadeLine (GetSessionTime now s) unit evadeReason) s)"

definition deathLine :: "int \<Rightarrow> Unit option \<Rightarrow> Unit option \<Rightarrow> string" where
  \<open>deathLine t unit killer =
     ''{"t":'' @ fixed3 t @ '',"event":"death","source":'' @ FormatUnit unit @
     '',"killer":'' @ FormatUnit killer @ ''}''\<close>

definition RecordUnitDeath ::
  "int \<Rightarrow> Unit option \<Rightarrow> Unit option \<Rightarrow> EventRecorder \<Rightarrow> EventRecorder" where
  "RecordUnitDeath now unit killer s =
     (if \<not> PassesFilters unit s \<and> \<not> PassesFilters killer s then s
      else WriteEvent (deathLine (GetSessionTime now s) unit killer) s)"

definition damageLine :: "int \<Rightarrow> Unit option \<Rightarrow> Unit option \<Rightarrow> uint32 \<Rightarrow> string" where
  \<open>damageLine t attacker victim damage =
     ''{"t":'' @ fixed3 t @ '',"event":"damage","source":'' @ FormatUnit attacker @
     '',"target":'' @ FormatUnit victim @ '',"amount":'' @ decimal (unat damage) @ ''}''\<close>

definition RecordDamage ::
  "int \<Rightarrow> Unit option \<Rightarrow> Unit option \<Rightarrow> uint32 \<Rightarrow> EventRecorder \<Rightarrow> EventRecorder" where
  "RecordDamage now attacker victim damage s =
     (if \<not> PassesFilters attacker s \<and> \<not> PassesFilters victim s then s
      else WriteEvent (damageLine (GetSessionTime now s) attacker victim damage) s)"

definition healLine :: "int \<Rightarrow> Unit option \<Rightarrow> Unit option \<Rightarrow> uint32 \<Rightarrow> string" where
  \<open>healLine t healer target gain =
     ''{"t":'' @ fixed3 t @ '',"event":"heal","source":'' @ FormatUnit healer @
     '',"target":'' @ FormatUnit target @ '',"amount":'' @ decimal (unat gain) @ ''}''\<close>

definition RecordHeal ::
  "int \<Rightarrow> Unit option \<Rightarrow> Unit option \<Rightarrow> uint32 \<Rightarrow> EventRecorder \<Rightarrow> EventRecorder" where
  "RecordHeal now healer target gain s =
     (if \<not> PassesFilters healer s \<and> \<not> PassesFilters target s then s
      else WriteEvent (healLine (GetSessionTime now s) healer target gain) s)"

text \<open>The spell name and id the three spell events print: the escaped
  \<^verbatim>\<open>SpellName[0]\<close>, or \<^verbatim>\<open>Unknown\<close> and 0 where the pointer is null.\<close>

definition spellNameOf :: "SpellInfo option \<Rightarrow> string" where
  "spellNameOf spellInfo =
     (case spellInfo of
        None \<Rightarrow> ''Unknown''
      | Some si \<Rightarrow> (case SpellName0 si of None \<Rightarrow> ''Unknown'' | Some n \<Rightarrow> EscapeJson n))"

definition spellIdOf :: "SpellInfo option \<Rightarrow> uint32" where
  "spellIdOf spellInfo = (case spellInfo of None \<Rightarrow> 0 | Some si \<Rightarrow> Id si)"

definition auraApplyLine :: "int \<Rightarrow> Unit option \<Rightarrow> uint32 \<Rightarrow> string \<Rightarrow> string" where
  \<open>auraApplyLine t unit spell spellName =
     ''{"t":'' @ fixed3 t @ '',"event":"aura_apply","target":'' @ FormatUnit unit @
     '',"spell_id":'' @ decimal (unat spell) @ '',"spell_name":"'' @ spellName @ ''"}''\<close>

definition RecordAuraApply ::
  "int \<Rightarrow> Unit option \<Rightarrow> Aura option \<Rightarrow> EventRecorder \<Rightarrow> EventRecorder" where
  "RecordAuraApply now unit aura s =
     (if \<not> PassesFilters unit s then s
      else case aura of
        None \<Rightarrow> s
      | Some a \<Rightarrow>
          (let spellInfo = GetSpellInfo a
           in WriteEvent (auraApplyLine (GetSessionTime now s) unit (spellIdOf spellInfo)
                            (spellNameOf spellInfo)) s))"

definition auraRemoveLine ::
  "int \<Rightarrow> Unit option \<Rightarrow> uint32 \<Rightarrow> string \<Rightarrow> uint8 \<Rightarrow> string" where
  \<open>auraRemoveLine t unit spell spellName removeMode =
     ''{"t":'' @ fixed3 t @ '',"event":"aura_remove","target":'' @ FormatUnit unit @
     '',"spell_id":'' @ decimal (unat spell) @ '',"spell_name":"'' @ spellName @
     ''","remove_mode":'' @ decimal (unat removeMode) @ ''}''\<close>

definition RecordAuraRemove ::
  "int \<Rightarrow> Unit option \<Rightarrow> AuraApplication option \<Rightarrow> uint8 \<Rightarrow> EventRecorder \<Rightarrow> EventRecorder"
where
  "RecordAuraRemove now unit aurApp removeMode s =
     (if \<not> PassesFilters unit s then s
      else case aurApp of
        None \<Rightarrow> s
      | Some app \<Rightarrow>
          (case GetBase app of
             None \<Rightarrow> s
           | Some aura \<Rightarrow>
               (let spellInfo = GetSpellInfo aura
                in WriteEvent (auraRemoveLine (GetSessionTime now s) unit (spellIdOf spellInfo)
                                 (spellNameOf spellInfo) removeMode) s)))"

definition spellCastLine :: "int \<Rightarrow> Unit option \<Rightarrow> uint32 \<Rightarrow> string \<Rightarrow> string" where
  \<open>spellCastLine t player spell spellName =
     ''{"t":'' @ fixed3 t @ '',"event":"spell_cast","source":'' @ FormatUnit player @
     '',"spell_id":'' @ decimal (unat spell) @ '',"spell_name":"'' @ spellName @ ''"}''\<close>

definition RecordSpellCast ::
  "int \<Rightarrow> Unit option \<Rightarrow> SpellInfo option \<Rightarrow> EventRecorder \<Rightarrow> EventRecorder" where
  "RecordSpellCast now player spellInfo s =
     (if \<not> PassesFilters player s then s
      else case spellInfo of
        None \<Rightarrow> s
      | Some si \<Rightarrow>
          WriteEvent (spellCastLine (GetSessionTime now s) player (Id si)
                        (spellNameOf (Some si))) s)"

subsection \<open>Sequences of calls\<close>

text \<open>A call of one of the nine \<^verbatim>\<open>Record*\<close> methods with its arguments, and the
  dispatch to the method.\<close>

datatype Call =
    EnterCombat "Unit option" "Unit option"
  | LeaveCombat "Unit option"
  | Evade "Unit option" uint8
  | UnitDeath "Unit option" "Unit option"
  | Damage "Unit option" "Unit option" uint32
  | Heal "Unit option" "Unit option" uint32
  | AuraApply "Unit option" "Aura option"
  | AuraRemove "Unit option" "AuraApplication option" uint8
  | SpellCast "Unit option" "SpellInfo option"

fun record_call :: "int \<Rightarrow> Call \<Rightarrow> EventRecorder \<Rightarrow> EventRecorder" where
  "record_call now (EnterCombat unit victim) s = RecordEnterCombat now unit victim s"
| "record_call now (LeaveCombat creature) s = RecordLeaveCombat now creature s"
| "record_call now (Evade unit evadeReason) s = RecordEvade now unit evadeReason s"
| "record_call now (UnitDeath unit killer) s = RecordUnitDeath now unit killer s"
| "record_call now (Damage attacker victim damage) s = RecordDamage now attacker victim damage s"
| "record_call now (Heal healer target gain) s = RecordHeal now healer target gain s"
| "record_call now (AuraApply unit aura) s = RecordAuraApply now unit aura s"
| "record_call now (AuraRemove unit aurApp removeMode) s =
     RecordAuraRemove now unit aurApp removeMode s"
| "record_call now (SpellCast player spellInfo) s = RecordSpellCast now player spellInfo s"

text \<open>The calls of a list in order, each with the reading of the steady clock at the
  call.\<close>

fun record_calls :: "(int \<times> Call) list \<Rightarrow> EventRecorder \<Rightarrow> EventRecorder" where
  "record_calls [] s = s"
| "record_calls ((now, c) # cs) s = record_calls cs (record_call now c s)"

text \<open>A call is admitted when its method reaches \<^verbatim>\<open>WriteEvent\<close>: the filter is
  passed by the entity (by one of the two entities for death, damage and heal), and the
  aura or spell of an aura or spell event is not null.\<close>

fun admitted :: "Call \<Rightarrow> EventRecorder \<Rightarrow> bool" where
  "admitted (EnterCombat unit victim) s = PassesFilters unit s"
| "admitted (LeaveCombat creature) s = PassesFilters creature s"
| "admitted (Evade unit evadeReason) s = PassesFilters unit s"
| "admitted (UnitDeath unit killer) s = (PassesFilters unit s \<or> PassesFilters killer s)"
| "admitted (Damage attacker victim damage) s =
     (PassesFilters attacker s \<or> PassesFilters victim s)"
| "admitted (Heal healer target gain) s = (PassesFilters healer s \<or> PassesFilters target s)"
| "admitted (AuraApply unit aura) s = (PassesFilters unit s \<and> aura \<noteq> None)"
| "admitted (AuraRemove unit aurApp removeMode) s =
     (PassesFilters unit s \<and>
      (case aurApp of None \<Rightarrow> False | Some app \<Rightarrow> GetBase app \<noteq> None))"
| "admitted (SpellCast player spellInfo) s = (PassesFilters player s \<and> spellInfo \<noteq> None)"

text \<open>The line an admitted call hands to \<^verbatim>\<open>WriteEvent\<close>.\<close>

fun line_of :: "int \<Rightarrow> Call \<Rightarrow> EventRecorder \<Rightarrow> string" where
  "line_of now (EnterCombat unit victim) s = enterCombatLine (GetSessionTime now s) unit victim"
| "line_of now (LeaveCombat creature) s = leaveCombatLine (GetSessionTime now s) creature"
| "line_of now (Evade unit evadeReason) s = evadeLine (GetSessionTime now s) unit evadeReason"
| "line_of now (UnitDeath unit killer) s = deathLine (GetSessionTime now s) unit killer"
| "line_of now (Damage attacker victim damage) s =
     damageLine (GetSessionTime now s) attacker victim damage"
| "line_of now (Heal healer target gain) s = healLine (GetSessionTime now s) healer target gain"
| "line_of now (AuraApply unit aura) s =
     (let spellInfo = (case aura of None \<Rightarrow> None | Some a \<Rightarrow> GetSpellInfo a)
      in auraApplyLine (GetSessionTime now s) unit (spellIdOf spellInfo) (spellNameOf spellInfo))"
| "line_of now (AuraRemove unit aurApp removeMode) s =
     (let aura = (case aurApp of None \<Rightarrow> None | Some app \<Rightarrow> GetBase app);
          spellInfo = (case aura of None \<Rightarrow> None | Some a \<Rightarrow> GetSpellInfo a)
      in auraRemoveLine (GetSessionTime now s) unit (spellIdOf spellInfo)
           (spellNameOf spellInfo) removeMode)"
| "line_of now (SpellCast player spellInfo) s =
     spellCastLine (GetSessionTime now s) player (spellIdOf spellInfo) (spellNameOf spellInfo)"

text \<open>The lines of the admitted calls of a list, in order.\<close>

fun lines_of :: "(int \<times> Call) list \<Rightarrow> EventRecorder \<Rightarrow> string list" where
  "lines_of [] s = []"
| "lines_of ((now, c) # cs) s =
     (if admitted c s then line_of now c s # lines_of cs s else lines_of cs s)"

text \<open>\<^verbatim>\<open>WriteEvent\<close> on each line of a list.\<close>

fun write_events :: "string list \<Rightarrow> EventRecorder \<Rightarrow> EventRecorder" where
  "write_events [] s = s"
| "write_events (l # ls) s = write_events ls (WriteEvent l s)"

subsection \<open>The invariant and the reachable states\<close>

text \<open>\<^verbatim>\<open>IsActive()\<close> is true exactly when the stream is open.\<close>

definition sessionInv :: "EventRecorder \<Rightarrow> bool" where
  "sessionInv s = (IsActive s = (outFile s \<noteq> None))"

text \<open>The states the public operations lead to from the initial object, whatever files
  exist at first.\<close>

inductive reachable :: "EventRecorder \<Rightarrow> bool" where
  r_init: "reachable (initialRecorder\<lparr>files := fs\<rparr>)"
| r_config: "reachable s \<Longrightarrow> reachable (LoadConfig cfg s)"
| r_start: "reachable s \<Longrightarrow> reachable (snd (StartSession name player mapF rad env s))"
| r_stop: "reachable s \<Longrightarrow> reachable (snd (StopSession now s))"
| r_record: "reachable s \<Longrightarrow> reachable (record_call now c s)"

subsection \<open>Distances\<close>




subsection \<open>The end-to-end scenario\<close>

text \<open>The scenario of the specification: recording is enabled with a cap, the session
  \<^verbatim>\<open>boss1\<close> is started with radius 50 by a player at (100, 100, 50) on map 0, and
  two damage events arrive: attacker A at distance 10 and victim B at distance 200 with
  amount 500, then attacker C at distance 300 and victim D at distance 400 with amount
  10. All units stand on the line through the anchor along the x axis.\<close>

definition scenarioConfig :: "uint32 \<Rightarrow> Config" where
  "scenarioConfig cap =
     \<lparr> cfgEnable = True, cfgOutputDir = ''recordings'', cfgMaxEvents = cap,
       cfgDefaultRadius = fzero \<rparr>"

definition scenarioEnv :: StartEnv where
  "scenarioEnv =
     \<lparr> dirCreated = True, fileOpens = True, timeBuf = ''20260101_120000'', startNow = 0,
       envDefaultRadius = fzero \<rparr>"

definition unitAt :: "string \<Rightarrow> float32 \<Rightarrow> float32 \<Rightarrow> float32 \<Rightarrow> Unit" where
  "unitAt n x y z =
     \<lparr> GetMapId = 0, GetInstanceId = 0, GetPositionX = x, GetPositionY = y,
       GetPositionZ = z, GetName = n, GetGUIDString = ''Player-'' @ n, GetEntry = 0,
       IsCreature = False, IsPlayer = True \<rparr>"

definition scenarioUnit :: "string \<Rightarrow> int \<Rightarrow> Unit" where
  "scenarioUnit n x = unitAt n (f32 x 0) (f32 100 0) (f32 50 0)"

definition scenarioSession :: "uint32 \<Rightarrow> EventRecorder" where
  "scenarioSession cap =
     snd (StartSession ''boss1'' (Some (scenarioUnit ''Gm'' 100)) 0 (f32 50 0) scenarioEnv
            (LoadConfig (scenarioConfig cap) initialRecorder))"

definition scenarioFile :: string where
  "scenarioFile = ''recordings/boss1_20260101_120000.jsonl''"

definition scenarioCalls :: "(int \<times> Call) list" where
  "scenarioCalls =
     [(1000000, Damage (Some (scenarioUnit ''A'' 110)) (Some (scenarioUnit ''B'' 300)) 500),
      (2000000, Damage (Some (scenarioUnit ''C'' 400)) (Some (scenarioUnit ''D'' 500)) 10)]"

text \<open>The configuration is reloaded with \<^verbatim>\<open>Enable\<close> turned off while the session of the
  scenario is running.\<close>

definition scenarioDisabled :: EventRecorder where
  "scenarioDisabled =
     LoadConfig ((scenarioConfig 100000)\<lparr>cfgEnable := False\<rparr>) (scenarioSession 100000)"

text \<open>Two calls that the filter of the scenario admits, both through unit A.\<close>

definition admittedCalls :: "(int \<times> Call) list" where
  "admittedCalls =
     [(1000000, Damage (Some (scenarioUnit ''A'' 110)) (Some (scenarioUnit ''B'' 300)) 500),
      (2000000, Heal (Some (scenarioUnit ''A'' 110)) None 7)]"




section \<open>Properties\<close>

subsection \<open>The writer and sequences of calls\<close>

declare decimal.simps [simp del] bit_length.simps [simp del] odd_part.simps [simp del]

lemma WriteEvent_closed: "outFile s = None \<Longrightarrow> WriteEvent l s = s"
  by (simp add: WriteEvent_def)

lemma WriteEvent_frame:
  "enabled (WriteEvent l s) = enabled s"
  "active (WriteEvent l s) = active s"
  "sessionName (WriteEvent l s) = sessionName s"
  "outputDir (WriteEvent l s) = outputDir s"
  "maxEvents (WriteEvent l s) = maxEvents s"
  "mapFilter (WriteEvent l s) = mapFilter s"
  "instanceFilter (WriteEvent l s) = instanceFilter s"
  "radius (WriteEvent l s) = radius s"
  "recorderX (WriteEvent l s) = recorderX s"
  "recorderY (WriteEvent l s) = recorderY s"
  "recorderZ (WriteEvent l s) = recorderZ s"
  "recorderMapId (WriteEvent l s) = recorderMapId s"
  "sessionStart (WriteEvent l s) = sessionStart s"
  "outFile (WriteEvent l s) = outFile s"
  by (simp_all add: WriteEvent_def split: option.split)

lemma PassesFilters_WriteEvent: "PassesFilters u (WriteEvent l s) = PassesFilters u s"
  by (cases u) (simp_all add: PassesFilters_def WriteEvent_frame)

lemma GetSessionTime_WriteEvent: "GetSessionTime now (WriteEvent l s) = GetSessionTime now s"
  by (simp add: GetSessionTime_def WriteEvent_frame)

lemma admitted_WriteEvent: "admitted c (WriteEvent l s) = admitted c s"
  by (cases c) (simp_all add: PassesFilters_WriteEvent)

lemma line_of_WriteEvent: "line_of now c (WriteEvent l s) = line_of now c s"
  by (cases c) (simp_all add: GetSessionTime_WriteEvent)

lemma lines_of_WriteEvent: "lines_of cs (WriteEvent l s) = lines_of cs s"
  by (induction cs) (auto simp: admitted_WriteEvent line_of_WriteEvent)

lemma record_call_eq:
  "record_call now c s = (if admitted c s then WriteEvent (line_of now c s) s else s)"
  by (cases c)
     (auto simp: RecordEnterCombat_def RecordLeaveCombat_def RecordEvade_def
        RecordUnitDeath_def RecordDamage_def RecordHeal_def RecordAuraApply_def
        RecordAuraRemove_def RecordSpellCast_def spellIdOf_def Let_def split: option.splits)

lemma record_calls_eq: "record_calls cs s = write_events (lines_of cs s) s"
proof (induction cs arbitrary: s)
  case Nil
  show ?case by simp
next
  case (Cons x cs)
  obtain now c where x: "x = (now, c)" by (cases x)
  show ?case
    by (simp add: x Cons.IH record_call_eq lines_of_WriteEvent)
qed

lemma write_events_closed: "outFile s = None \<Longrightarrow> write_events ls s = s"
  by (induction ls) (simp_all add: WriteEvent_closed)

lemma unat_succ_below:
  fixes x y :: uint32
  assumes "unat x < unat y"
  shows "unat (x + 1) = Suc (unat x)"
proof -
  have "unat y < 2 ^ 32" using unsigned_less [of y, where ?'a = nat] by simp
  with assms have "unat x + 1 < 2 ^ 32" by simp
  then show ?thesis by (simp add: unat_word_ariths)
qed

lemma unat_succ_cap:
  fixes y :: uint32
  assumes "unat y < 2 ^ 32 - 1"
  shows "unat (y + 1) = Suc (unat y)"
proof -
  from assms have "unat y + 1 < 2 ^ 32" by simp
  then show ?thesis by (simp add: unat_word_ariths)
qed

lemma WriteEvent_below:
  assumes "outFile s = Some p" "unat (eventCount s) < unat (maxEvents s)"
  shows "linesOf p (WriteEvent l s) = linesOf p s @ [l]"
    and "unat (eventCount (WriteEvent l s)) = Suc (unat (eventCount s))"
    and "serverLog (WriteEvent l s) = serverLog s"
proof -
  from assms(2) have lt: "eventCount s < maxEvents s" by (simp add: word_less_nat_alt)
  then have nle: "\<not> maxEvents s \<le> eventCount s" by simp
  show "linesOf p (WriteEvent l s) = linesOf p s @ [l]"
    using assms(1) nle by (simp add: WriteEvent_def linesOf_def)
  show "unat (eventCount (WriteEvent l s)) = Suc (unat (eventCount s))"
    using assms(1) nle unat_succ_below [OF assms(2)] by (simp add: WriteEvent_def)
  show "serverLog (WriteEvent l s) = serverLog s"
    using assms(1) nle by (simp add: WriteEvent_def)
qed

lemma WriteEvent_at_cap:
  assumes "outFile s = Some p" "eventCount s = maxEvents s"
  shows "files (WriteEvent l s) = files s"
    and "eventCount (WriteEvent l s) = maxEvents s + 1"
    and "serverLog (WriteEvent l s) = serverLog s @ [LogMaxEvents (maxEvents s) (sessionName s)]"
  using assms by (simp_all add: WriteEvent_def)

lemma WriteEvent_past_cap:
  assumes "unat (maxEvents s) < unat (eventCount s)"
  shows "WriteEvent l s = s"
proof -
  from assms have "maxEvents s < eventCount s" by (simp add: word_less_nat_alt)
  then have "maxEvents s \<le> eventCount s" "eventCount s \<noteq> maxEvents s" by auto
  then show ?thesis by (simp add: WriteEvent_def split: option.split)
qed

lemma write_events_past_cap:
  "unat (maxEvents s) < unat (eventCount s) \<Longrightarrow> write_events ls s = s"
  by (induction ls) (simp_all add: WriteEvent_past_cap)

lemma linesOf_files_cong: "files s' = files s \<Longrightarrow> linesOf p s' = linesOf p s"
  by (simp add: linesOf_def)

lemma write_events_effect:
  assumes "outFile s = Some p" "unat (eventCount s) \<le> unat (maxEvents s)"
    "unat (maxEvents s) < 2 ^ 32 - 1"
  shows "linesOf p (write_events ls s) =
           linesOf p s @ take (unat (maxEvents s) - unat (eventCount s)) ls
         \<and> serverLog (write_events ls s) =
           serverLog s @ (if unat (maxEvents s) < unat (eventCount s) + length ls
                          then [LogMaxEvents (maxEvents s) (sessionName s)] else [])
         \<and> unat (eventCount (write_events ls s)) =
           min (unat (eventCount s) + length ls) (Suc (unat (maxEvents s)))"
  using assms
proof (induction ls arbitrary: s)
  case Nil
  then show ?case by simp
next
  case (Cons l ls)
  let ?s' = "WriteEvent l s"
  show ?case
  proof (cases "unat (eventCount s) < unat (maxEvents s)")
    case True
    note below = WriteEvent_below [OF Cons.prems(1) True, of l]
    have o: "outFile ?s' = Some p" by (simp add: WriteEvent_frame Cons.prems(1))
    have c: "unat (eventCount ?s') \<le> unat (maxEvents ?s')"
      using True by (simp add: below(2) WriteEvent_frame)
    have m: "unat (maxEvents ?s') < 2 ^ 32 - 1"
      using Cons.prems(3) by (simp add: WriteEvent_frame)
    from Cons.IH [OF o c m] True show ?thesis
      by (simp add: below WriteEvent_frame take_Cons' Suc_diff_Suc)
  next
    case False
    with Cons.prems(2) have eq: "unat (eventCount s) = unat (maxEvents s)" by simp
    then have weq: "eventCount s = maxEvents s" by (simp add: word_unat_eq_iff)
    note at = WriteEvent_at_cap [OF Cons.prems(1) weq, of l]
    have "unat (maxEvents ?s') < unat (eventCount ?s')"
      by (simp add: at(2) WriteEvent_frame unat_succ_cap [OF Cons.prems(3)])
    then have "write_events ls ?s' = ?s'" by (rule write_events_past_cap)
    then show ?thesis
      using eq by (simp add: at linesOf_files_cong [OF at(1)] unat_succ_cap [OF Cons.prems(3)])
  qed
qed

lemma write_events_frame:
  "active (write_events ls s) = active s"
  "sessionName (write_events ls s) = sessionName s"
  "maxEvents (write_events ls s) = maxEvents s"
  "sessionStart (write_events ls s) = sessionStart s"
  "outFile (write_events ls s) = outFile s"
  "enabled (write_events ls s) = enabled s"
  by (induction ls arbitrary: s) (simp_all add: WriteEvent_frame)

lemma GetSessionTime_write_events:
  "GetSessionTime now (write_events ls s) = GetSessionTime now s"
  by (simp add: GetSessionTime_def write_events_frame)

lemma lines_of_all_admitted:
  "\<forall>(now, c) \<in> set cs. admitted c s \<Longrightarrow> lines_of cs s = map (\<lambda>(now, c). line_of now c s) cs"
  by (induction cs) auto

lemma lines_of_filter:
  "lines_of cs s = map (\<lambda>(now, c). line_of now c s) (filter (\<lambda>(now, c). admitted c s) cs)"
  by (induction cs) auto

lemma StartSession_True_conds:
  assumes "StartSession name player mapF rad env s = (True, s1)"
  shows "\<not> active s" and "enabled s" and "dirCreated env"
proof -
  show "\<not> active s" using assms by (cases "active s") (simp_all add: StartSession_def)
  then show "enabled s" using assms by (cases "enabled s") (simp_all add: StartSession_def)
  then show "dirCreated env" using assms \<open>\<not> active s\<close>
    by (cases "dirCreated env") (simp_all add: StartSession_def)
qed

text \<open>The state of a session just before its start line is written.\<close>

lemma StartSession_success:
  assumes "StartSession name player mapF rad env s = (True, s1)" and "outFile s = None"
  obtains s5 where
    "s1 = (WriteEvent (startEventLine name (mapFilter s5)
                (sessionFileName (outputDir s) name (timeBuf env))) s5)
          \<lparr>serverLog :=
              serverLog (WriteEvent (startEventLine name (mapFilter s5)
                (sessionFileName (outputDir s) name (timeBuf env))) s5) @
              [LogStarted name (mapFilter s5) (radius s5)
                 (sessionFileName (outputDir s) name (timeBuf env))]\<rparr>"
    "outFile s5 = Some (sessionFileName (outputDir s) name (timeBuf env))"
    "files s5 = (files s)(sessionFileName (outputDir s) name (timeBuf env) \<mapsto> [])"
    "eventCount s5 = 0" "sessionName s5 = name" "maxEvents s5 = maxEvents s"
    "serverLog s5 = serverLog s" "active s5" "enabled s5" "sessionStart s5 = startNow env"
    "outputDir s5 = outputDir s"
proof -
  note c = StartSession_True_conds [OF assms(1)]
  let ?f = "sessionFileName (outputDir s) name (timeBuf env)"
  have op: "fileOpens env"
    using assms c by (cases "fileOpens env") (simp_all add: StartSession_def openTrunc_def)
  define s2 where "s2 = s\<lparr>outFile := Some ?f, files := (files s)(?f \<mapsto> []),
     sessionName := name, eventCount := 0, mapFilter := mapF\<rparr>"
  define s3 where "s3 = (case player of
                           None \<Rightarrow> s2
                         | Some p \<Rightarrow>
                             (let s' = s2\<lparr>recorderX := GetPositionX p,
                                          recorderY := GetPositionY p,
                                          recorderZ := GetPositionZ p,
                                          recorderMapId := GetMapId p,
                                          instanceFilter := GetInstanceId p\<rparr>
                              in if mapF = 0 then s'\<lparr>mapFilter := GetMapId p\<rparr> else s'))"
  define s4 where "s4 = (if fgt rad fzero then s3\<lparr>radius := rad\<rparr>
                         else if fle (radius s3) fzero
                           then s3\<lparr>radius := envDefaultRadius env\<rparr>
                         else s3)"
  define s5 where "s5 = s4\<lparr>sessionStart := startNow env, active := True\<rparr>"
  have p3: "outFile s3 = Some ?f" "files s3 = (files s)(?f \<mapsto> [])" "eventCount s3 = 0"
    "sessionName s3 = name" "maxEvents s3 = maxEvents s" "serverLog s3 = serverLog s"
    "enabled s3 = enabled s" "outputDir s3 = outputDir s"
    by (simp_all add: s3_def s2_def Let_def split: option.split)
  have p4: "outFile s4 = Some ?f" "files s4 = (files s)(?f \<mapsto> [])" "eventCount s4 = 0"
    "sessionName s4 = name" "maxEvents s4 = maxEvents s" "serverLog s4 = serverLog s"
    "enabled s4 = enabled s" "outputDir s4 = outputDir s"
    by (simp_all add: s4_def p3)
  have p5: "outFile s5 = Some ?f" "files s5 = (files s)(?f \<mapsto> [])" "eventCount s5 = 0"
    "sessionName s5 = name" "maxEvents s5 = maxEvents s" "serverLog s5 = serverLog s"
    "active s5" "enabled s5" "sessionStart s5 = startNow env" "outputDir s5 = outputDir s"
    by (simp_all add: s5_def p4 c)
  have "StartSession name player mapF rad env s =
        (True, (WriteEvent (startEventLine (sessionName s5) (mapFilter s5) ?f) s5)
          \<lparr>serverLog := serverLog (WriteEvent (startEventLine (sessionName s5) (mapFilter s5) ?f) s5) @
              [LogStarted (sessionName (WriteEvent (startEventLine (sessionName s5) (mapFilter s5) ?f) s5))
                 (mapFilter (WriteEvent (startEventLine (sessionName s5) (mapFilter s5) ?f) s5))
                 (radius (WriteEvent (startEventLine (sessionName s5) (mapFilter s5) ?f) s5)) ?f]\<rparr>)"
    unfolding s5_def s4_def s3_def s2_def
    using c op assms(2) by (simp add: StartSession_def openTrunc_def Let_def)
  with assms(1) have s1eq: "s1 = (WriteEvent (startEventLine name (mapFilter s5) ?f) s5)
          \<lparr>serverLog := serverLog (WriteEvent (startEventLine name (mapFilter s5) ?f) s5) @
              [LogStarted name (mapFilter s5) (radius s5) ?f]\<rparr>"
    by (simp add: WriteEvent_frame p5)
  show thesis by (rule that [OF s1eq p5])
qed

lemma StartSession_started:
  assumes "StartSession name player mapF rad env s = (True, s1)"
    and "outFile s = None"
  shows "outFile s1 = Some (sessionFileName (outputDir s) name (timeBuf env))"
    and "active s1"
    and "sessionName s1 = name"
    and "maxEvents s1 = maxEvents s"
    and "sessionStart s1 = startNow env"
    and "enabled s1"
proof -
  from assms obtain s5 where s5: "s1 = (WriteEvent (startEventLine name (mapFilter s5)
                (sessionFileName (outputDir s) name (timeBuf env))) s5)
          \<lparr>serverLog :=
              serverLog (WriteEvent (startEventLine name (mapFilter s5)
                (sessionFileName (outputDir s) name (timeBuf env))) s5) @
              [LogStarted name (mapFilter s5) (radius s5)
                 (sessionFileName (outputDir s) name (timeBuf env))]\<rparr>"
    "outFile s5 = Some (sessionFileName (outputDir s) name (timeBuf env))"
    "sessionName s5 = name" "maxEvents s5 = maxEvents s"
    "active s5" "enabled s5" "sessionStart s5 = startNow env"
    by (rule StartSession_success)
  show "outFile s1 = Some (sessionFileName (outputDir s) name (timeBuf env))"
    and "active s1" and "sessionName s1 = name" and "maxEvents s1 = maxEvents s"
    and "sessionStart s1 = startNow env" and "enabled s1"
    by (simp_all add: s5 WriteEvent_frame)
qed

lemma StartSession_first_line:
  assumes "StartSession name player mapF rad env s = (True, s1)"
    and "outFile s = None" and "0 < unat (maxEvents s)"
  shows "linesOf (sessionFileName (outputDir s) name (timeBuf env)) s1 =
           [startEventLine name (mapFilter s1) (sessionFileName (outputDir s) name (timeBuf env))]"
    and "unat (eventCount s1) = 1"
    and "serverLog s1 = serverLog s @
           [LogStarted name (mapFilter s1) (radius s1)
              (sessionFileName (outputDir s) name (timeBuf env))]"
proof -
  let ?f = "sessionFileName (outputDir s) name (timeBuf env)"
  from assms(1,2) obtain s5 where s5: "s1 = (WriteEvent (startEventLine name (mapFilter s5) ?f) s5)
          \<lparr>serverLog := serverLog (WriteEvent (startEventLine name (mapFilter s5) ?f) s5) @
              [LogStarted name (mapFilter s5) (radius s5) ?f]\<rparr>"
    and o: "outFile s5 = Some ?f"
    and f: "files s5 = (files s)(?f \<mapsto> [])"
    and e: "eventCount s5 = 0" and m: "maxEvents s5 = maxEvents s"
    and l: "serverLog s5 = serverLog s"
    by (rule StartSession_success)
  have lt: "unat (eventCount s5) < unat (maxEvents s5)" using assms(3) by (simp add: e m)
  note w = WriteEvent_below [OF o lt, of "startEventLine name (mapFilter s5) ?f"]
  have l5: "linesOf ?f s5 = []" by (simp add: linesOf_def f)
  show "linesOf ?f s1 = [startEventLine name (mapFilter s1) ?f]"
    using w(1) by (simp add: s5 linesOf_def WriteEvent_frame l5 [unfolded linesOf_def])
  show "unat (eventCount s1) = 1"
    using w(2) by (simp add: s5 e)
  show "serverLog s1 = serverLog s @ [LogStarted name (mapFilter s1) (radius s1) ?f]"
    using w(3) by (simp add: s5 l WriteEvent_frame)
qed

text \<open>What \<^verbatim>\<open>StopSession\<close> does on every active session, at the cap or below it:
  it returns success, closes the stream, marks the session inactive and resets the
  filter fields; nothing but \<^verbatim>\<open>StopSession\<close> closes the stream (the writer keeps
  \<open>outFile\<close> and \<open>active\<close>, by \<open>WriteEvent_frame\<close>).\<close>

lemma StopSession_active:
  assumes "active s"
  shows "fst (StopSession now s)"
    and "outFile (snd (StopSession now s)) = None"
    and "\<not> active (snd (StopSession now s))"
    and "mapFilter (snd (StopSession now s)) = 0"
    and "instanceFilter (snd (StopSession now s)) = 0"
    and "radius (snd (StopSession now s)) = fzero"
    and "recorderX (snd (StopSession now s)) = fzero"
    and "recorderY (snd (StopSession now s)) = fzero"
    and "recorderZ (snd (StopSession now s)) = fzero"
    and "recorderMapId (snd (StopSession now s)) = 0"
  using assms by (simp_all add: StopSession_def Let_def)

subsection \<open>The invariant\<close>

lemma sessionInv_LoadConfig: "sessionInv s \<Longrightarrow> sessionInv (LoadConfig cfg s)"
  by (simp add: sessionInv_def IsActive_def LoadConfig_def Let_def)

lemma sessionInv_WriteEvent: "sessionInv s \<Longrightarrow> sessionInv (WriteEvent l s)"
  by (simp add: sessionInv_def IsActive_def WriteEvent_frame)

lemma sessionInv_record_call: "sessionInv s \<Longrightarrow> sessionInv (record_call now c s)"
  by (simp add: record_call_eq sessionInv_WriteEvent)

lemma sessionInv_StopSession: "sessionInv s \<Longrightarrow> sessionInv (snd (StopSession now s))"
  by (simp add: sessionInv_def IsActive_def StopSession_def Let_def)

lemma sessionInv_StartSession:
  assumes "sessionInv s"
  shows "sessionInv (snd (StartSession name player mapF rad env s))"
proof (cases "fst (StartSession name player mapF rad env s)")
  case True
  then have eq: "StartSession name player mapF rad env s =
      (True, snd (StartSession name player mapF rad env s))"
    by (metis prod.collapse)
  from StartSession_True_conds(1) [OF eq] assms have "outFile s = None"
    by (simp add: sessionInv_def IsActive_def)
  from StartSession_started(1,2) [OF eq this] show ?thesis
    by (simp add: sessionInv_def IsActive_def)
next
  case False
  show ?thesis
  proof (cases "active s \<or> \<not> enabled s")
    case True
    then show ?thesis using assms by (auto simp: StartSession_def)
  next
    case ae: False
    show ?thesis
    proof (cases "dirCreated env")
      case True
      from ae assms have n: "outFile s = None" by (simp add: sessionInv_def IsActive_def)
      have "\<not> fileOpens env"
      proof
        assume "fileOpens env"
        with ae True n have "fst (StartSession name player mapF rad env s)"
          by (simp add: StartSession_def openTrunc_def Let_def)
        with False show False ..
      qed
      with ae True n assms show ?thesis
        by (simp add: StartSession_def openTrunc_def Let_def sessionInv_def IsActive_def)
    next
      case False
      with ae assms show ?thesis
        by (simp add: StartSession_def sessionInv_def IsActive_def)
    qed
  qed
qed

lemma reachable_sessionInv: "reachable s \<Longrightarrow> sessionInv s"
proof (induction rule: reachable.induct)
  case (r_init fs)
  show ?case by (simp add: sessionInv_def IsActive_def initialRecorder_def)
next
  case (r_config s cfg)
  then show ?case by (simp add: sessionInv_LoadConfig)
next
  case (r_start s name player mapF rad env)
  then show ?case by (simp add: sessionInv_StartSession)
next
  case (r_stop s now)
  then show ?case by (simp add: sessionInv_StopSession)
next
  case (r_record s now c)
  then show ?case by (simp add: sessionInv_record_call)
qed

subsection \<open>Starting while a session is active\<close>

text \<open>Claim C5. In every state in which a session is active, \<^verbatim>\<open>StartSession\<close>, with
  any arguments and whatever the directory, the file system, the clocks and the
  configuration say, returns failure and the state after the call is the state before
  it: the file system, the stream, the event count, the session name, the start instant,
  all filter fields and the log are those of the running session.\<close>

theorem StartSession_while_active_is_refused:
  "IsActive s \<Longrightarrow> StartSession name player mapF rad env s = (False, s)"
  by (simp add: IsActive_def StartSession_def)

theorem StartSession_while_active_is_refused_witness:
  "IsActive (scenarioSession 100000) \<and>
   StartSession ''boss2'' None 7 (f32 20 0) scenarioEnv (scenarioSession 100000) =
     (False, scenarioSession 100000)"
proof -
  have a: "IsActive (scenarioSession 100000)" by code_simp
  from StartSession_while_active_is_refused [OF a] a show ?thesis by blast
qed

subsection \<open>Recording while no session is active\<close>

text \<open>Claim C9. In every state the public operations can lead to in which no session
  is active (before any start, or after a stop), a sequence of \<^verbatim>\<open>Record*\<close> calls,
  whatever the calls and their entities, leaves the state exactly as it was: no file is
  created or written, and the event count does not change.\<close>

theorem record_calls_while_inactive_change_nothing:
  assumes "reachable s" and "\<not> IsActive s"
  shows "record_calls cs s = s"
proof -
  from assms have "outFile s = None"
    using reachable_sessionInv [of s] by (simp add: sessionInv_def)
  then show ?thesis by (simp add: record_calls_eq write_events_closed)
qed

theorem record_calls_while_inactive_change_nothing_witness:
  "reachable (snd (StopSession 5000000000 (scenarioSession 100000))) \<and>
   \<not> IsActive (snd (StopSession 5000000000 (scenarioSession 100000))) \<and>
   record_calls scenarioCalls (snd (StopSession 5000000000 (scenarioSession 100000))) =
     snd (StopSession 5000000000 (scenarioSession 100000))"
proof -
  have "reachable (initialRecorder\<lparr>files := Map.empty\<rparr>)" by (rule r_init)
  then have "reachable initialRecorder" by (simp add: initialRecorder_def)
  then have "reachable (scenarioSession 100000)"
    unfolding scenarioSession_def by (intro r_start r_config)
  then have r: "reachable (snd (StopSession 5000000000 (scenarioSession 100000)))"
    by (rule r_stop)
  have i: "\<not> IsActive (snd (StopSession 5000000000 (scenarioSession 100000)))"
    by code_simp
  from record_calls_while_inactive_change_nothing [OF r i] r i show ?thesis by blast
qed

subsection \<open>The stream is open exactly while a session is active\<close>

text \<open>Claim C10. \<^verbatim>\<open>IsActive()\<close> is true exactly when the stream is open: this
  holds of the initial object, and every public operation keeps it: reloading the
  configuration, \<^verbatim>\<open>StartSession\<close> whatever its outcome (refused while active, refused
  while disabled, directory not created, file not opened, started), \<^verbatim>\<open>StopSession\<close>
  on both paths, and each \<^verbatim>\<open>Record*\<close> call. The writer itself leaves the state as
  it is when the stream is closed, so a line is only ever written to an open stream.\<close>

theorem active_iff_open_is_invariant:
  "sessionInv initialRecorder \<and>
   (sessionInv s \<longrightarrow>
      sessionInv (LoadConfig cfg s) \<and>
      sessionInv (snd (StartSession name player mapF rad env s)) \<and>
      sessionInv (snd (StopSession now s)) \<and>
      sessionInv (record_call now' c s)) \<and>
   (outFile s = None \<longrightarrow> WriteEvent l s = s)"
proof -
  have "sessionInv initialRecorder"
    by (simp add: sessionInv_def IsActive_def initialRecorder_def)
  then show ?thesis
    by (simp add: sessionInv_LoadConfig sessionInv_StartSession sessionInv_StopSession
        sessionInv_record_call WriteEvent_closed)
qed

theorem active_iff_open_is_invariant_witness:
  "sessionInv (scenarioSession 100000) \<and>
   sessionInv (LoadConfig (scenarioConfig 5) (scenarioSession 100000)) \<and>
   sessionInv (snd (StartSession ''boss2'' None 0 fzero scenarioEnv (scenarioSession 100000))) \<and>
   sessionInv (snd (StopSession 1000000 (scenarioSession 100000))) \<and>
   sessionInv (record_call 1000000 (LeaveCombat None) (scenarioSession 100000)) \<and>
   outFile initialRecorder = None \<and>
   WriteEvent ''{}'' initialRecorder = initialRecorder"
proof -
  have h: "sessionInv (scenarioSession 100000)" by code_simp
  have n: "outFile initialRecorder = None" by (simp add: initialRecorder_def)
  from active_iff_open_is_invariant [of "scenarioSession 100000" "scenarioConfig 5" "''boss2''"
      None 0 fzero scenarioEnv 1000000 1000000 "LeaveCombat None"] h
  have a: "sessionInv (LoadConfig (scenarioConfig 5) (scenarioSession 100000)) \<and>
   sessionInv (snd (StartSession ''boss2'' None 0 fzero scenarioEnv (scenarioSession 100000))) \<and>
   sessionInv (snd (StopSession 1000000 (scenarioSession 100000))) \<and>
   sessionInv (record_call 1000000 (LeaveCombat None) (scenarioSession 100000))"
    by blast
  from active_iff_open_is_invariant [of initialRecorder _ _ _ _ _ _ _ _ _ "''{}''"] n
  have b: "WriteEvent ''{}'' initialRecorder = initialRecorder" by blast
  from h a n b show ?thesis by blast
qed

subsection \<open>The radius filter\<close>












subsection \<open>Admission of damage and death events\<close>

lemma FormatUnit_null: "FormatUnit None = ''null''"
  by (simp add: FormatUnit_def)

text \<open>Claim C8, as stated, fails. In the session with a cap of 2, after the two admitted
  calls, the session is active and unit A passes the filter, yet neither
  \<^verbatim>\<open>RecordDamage\<close> with A as attacker nor \<^verbatim>\<open>RecordUnitDeath\<close> with A as the
  unit writes a line: the cap is reached.\<close>

theorem capped_session_drops_admitted_damage_and_death:
  "IsActive (record_calls admittedCalls (scenarioSession 2)) \<and>
   PassesFilters (Some (scenarioUnit ''A'' 110)) (record_calls admittedCalls (scenarioSession 2)) \<and>
   linesOf scenarioFile
     (RecordDamage 3000000 (Some (scenarioUnit ''A'' 110)) (Some (scenarioUnit ''B'' 300)) 1
        (record_calls admittedCalls (scenarioSession 2))) =
     linesOf scenarioFile (record_calls admittedCalls (scenarioSession 2)) \<and>
   linesOf scenarioFile
     (RecordUnitDeath 3000000 (Some (scenarioUnit ''A'' 110)) None
        (record_calls admittedCalls (scenarioSession 2))) =
     linesOf scenarioFile (record_calls admittedCalls (scenarioSession 2))"
  by code_simp

text \<open>Claim C8, amended. In a session whose stream is open and whose event count is
  below the cap, \<^verbatim>\<open>RecordDamage\<close> appends its line exactly when the attacker or the
  victim passes the filter, and \<^verbatim>\<open>RecordUnitDeath\<close> exactly when the unit or the
  killer does; otherwise the file keeps its lines. A null entity never passes the filter,
  and in the line of an event admitted through the other entity it is printed as
  \<^verbatim>\<open>null\<close> in its field, which is not left out.\<close>

theorem damage_and_death_admit_on_either_entity:
  assumes "outFile s = Some p" and "unat (eventCount s) < unat (maxEvents s)"
  shows \<open>\<not> PassesFilters None s \<and>
    linesOf p (RecordDamage now attacker victim damage s) =
      (if PassesFilters attacker s \<or> PassesFilters victim s
       then linesOf p s @ [damageLine (GetSessionTime now s) attacker victim damage]
       else linesOf p s) \<and>
    linesOf p (RecordUnitDeath now unit killer s) =
      (if PassesFilters unit s \<or> PassesFilters killer s
       then linesOf p s @ [deathLine (GetSessionTime now s) unit killer]
       else linesOf p s) \<and>
    FormatUnit None = ''null'' \<and>
    damageLine t None victim damage =
      ''{"t":'' @ fixed3 t @ '',"event":"damage","source":null,"target":'' @
      FormatUnit victim @ '',"amount":'' @ decimal (unat damage) @ ''}'' \<and>
    damageLine t attacker None damage =
      ''{"t":'' @ fixed3 t @ '',"event":"damage","source":'' @ FormatUnit attacker @
      '',"target":null,"amount":'' @ decimal (unat damage) @ ''}'' \<and>
    deathLine t None killer =
      ''{"t":'' @ fixed3 t @ '',"event":"death","source":null,"killer":'' @
      FormatUnit killer @ ''}'' \<and>
    deathLine t unit None =
      ''{"t":'' @ fixed3 t @ '',"event":"death","source":'' @ FormatUnit unit @
      '',"killer":null}''\<close>
proof -
  note w = WriteEvent_below(1) [OF assms]
  have 1: "\<not> PassesFilters None s" by (simp add: PassesFilters_def)
  have 2: "linesOf p (RecordDamage now attacker victim damage s) =
      (if PassesFilters attacker s \<or> PassesFilters victim s
       then linesOf p s @ [damageLine (GetSessionTime now s) attacker victim damage]
       else linesOf p s)"
    by (simp add: RecordDamage_def w)
  have 3: "linesOf p (RecordUnitDeath now unit killer s) =
      (if PassesFilters unit s \<or> PassesFilters killer s
       then linesOf p s @ [deathLine (GetSessionTime now s) unit killer]
       else linesOf p s)"
    by (simp add: RecordUnitDeath_def w)
  show ?thesis
    unfolding damageLine_def deathLine_def FormatUnit_null
    using 1 2 3 by (simp add: damageLine_def deathLine_def)
qed

theorem damage_and_death_admit_on_either_entity_witness:
  \<open>outFile (scenarioSession 100000) = Some scenarioFile \<and>
   unat (eventCount (scenarioSession 100000)) < unat (maxEvents (scenarioSession 100000)) \<and>
   \<not> PassesFilters None (scenarioSession 100000) \<and>
   PassesFilters (Some (scenarioUnit ''A'' 110)) (scenarioSession 100000) \<and>
   \<not> PassesFilters (Some (scenarioUnit ''C'' 400)) (scenarioSession 100000) \<and>
   linesOf scenarioFile
     (RecordDamage 1000000 None (Some (scenarioUnit ''A'' 110)) 500 (scenarioSession 100000)) =
     linesOf scenarioFile (scenarioSession 100000) @
     [''{"t":0.001,"event":"damage","source":null,"target":{"type":"player","name":"A","guid":"Player-A"},"amount":500}''] \<and>
   linesOf scenarioFile
     (RecordUnitDeath 1000000 (Some (scenarioUnit ''C'' 400)) None (scenarioSession 100000)) =
     linesOf scenarioFile (scenarioSession 100000)\<close>
proof -
  let ?s = "scenarioSession 100000"
  have o: "outFile ?s = Some scenarioFile" by code_simp
  have "eventCount ?s = 1" and "maxEvents ?s = 100000" by code_simp+
  then have c: "unat (eventCount ?s) < unat (maxEvents ?s)" by simp
  have a: "PassesFilters (Some (scenarioUnit ''A'' 110)) ?s" by code_simp
  have r: "\<not> PassesFilters (Some (scenarioUnit ''C'' 400)) ?s" by code_simp
  have l: \<open>damageLine (GetSessionTime 1000000 ?s) None (Some (scenarioUnit ''A'' 110)) 500 =
    ''{"t":0.001,"event":"damage","source":null,"target":{"type":"player","name":"A","guid":"Player-A"},"amount":500}''\<close>
    by code_simp
  note t = damage_and_death_admit_on_either_entity [OF o c]
  from t [of 1000000 None "Some (scenarioUnit ''A'' 110)" 500] a
  have 1: "\<not> PassesFilters None ?s" and
    2: "linesOf scenarioFile (RecordDamage 1000000 None (Some (scenarioUnit ''A'' 110)) 500 ?s) =
        linesOf scenarioFile ?s @
          [damageLine (GetSessionTime 1000000 ?s) None (Some (scenarioUnit ''A'' 110)) 500]"
    by simp_all
  from t [of 1000000 _ _ _ "Some (scenarioUnit ''C'' 400)" None] 1 r
  have 3: "linesOf scenarioFile (RecordUnitDeath 1000000 (Some (scenarioUnit ''C'' 400)) None ?s) =
     linesOf scenarioFile ?s"
    by simp
  from o c 1 a r 2 [unfolded l] 3 show ?thesis by blast
qed

subsection \<open>The configuration switch\<close>

lemma WriteEvent_enabled_update:
  "WriteEvent l (s\<lparr>enabled := b\<rparr>) = (WriteEvent l s)\<lparr>enabled := b\<rparr>"
  by (simp add: WriteEvent_def linesOf_def split: option.split)

lemma PassesFilters_enabled_update: "PassesFilters u (s\<lparr>enabled := b\<rparr>) = PassesFilters u s"
  by (cases u) (simp_all add: PassesFilters_def)

lemma admitted_enabled_update: "admitted c (s\<lparr>enabled := b\<rparr>) = admitted c s"
  by (cases c) (simp_all add: PassesFilters_enabled_update)

lemma line_of_enabled_update: "line_of now c (s\<lparr>enabled := b\<rparr>) = line_of now c s"
  by (cases c) (simp_all add: GetSessionTime_def)

lemma record_call_enabled_update:
  "record_call now c (s\<lparr>enabled := b\<rparr>) = (record_call now c s)\<lparr>enabled := b\<rparr>"
  by (simp add: record_call_eq admitted_enabled_update line_of_enabled_update
      WriteEvent_enabled_update)

lemma StopSession_enabled_update:
  "StopSession now (s\<lparr>enabled := b\<rparr>) =
     (fst (StopSession now s), (snd (StopSession now s))\<lparr>enabled := b\<rparr>)"
  by (simp add: StopSession_def Let_def WriteEvent_enabled_update GetSessionTime_def
      WriteEvent_frame)

lemma StopSession_inactive: "\<not> active s \<Longrightarrow> StopSession now s = (False, s)"
  by (simp add: StopSession_def)

text \<open>Claim C6, as stated, fails. After \<^verbatim>\<open>Enable\<close> is turned off while the session of
  the scenario runs, \<^verbatim>\<open>IsEnabled()\<close> is false and the session is still active;
  \<^verbatim>\<open>StopSession\<close> then returns success, and two admitted \<^verbatim>\<open>Record*\<close> calls add
  two lines to the file and raise the event count from 1 to 3.\<close>

theorem disabled_recorder_still_stops_and_records:
  "\<not> IsEnabled scenarioDisabled \<and> IsActive scenarioDisabled \<and>
   fst (StopSession 3000000000 scenarioDisabled) \<and>
   length (linesOf scenarioFile scenarioDisabled) = 1 \<and>
   eventCount scenarioDisabled = 1 \<and>
   length (linesOf scenarioFile (record_calls admittedCalls scenarioDisabled)) = 3 \<and>
   eventCount (record_calls admittedCalls scenarioDisabled) = 3"
  by code_simp

text \<open>Claim C6, amended. Let \<^verbatim>\<open>IsEnabled()\<close> be false, in a state where the stream
  is open exactly when a session is active (as in every reachable state).
  \<^verbatim>\<open>StartSession\<close> returns failure and leaves the state as it is.
  \<^verbatim>\<open>StopSession\<close> and the \<^verbatim>\<open>Record*\<close> calls do not read the switch and do what
  they do with it on. With no session active, \<^verbatim>\<open>StopSession\<close> returns failure and
  changes nothing, and a \<^verbatim>\<open>Record*\<close> call changes nothing. With a session still
  active, \<^verbatim>\<open>StopSession\<close> returns success, closes the stream and marks the session
  inactive, and an admitted \<^verbatim>\<open>Record*\<close> call made below the cap appends its line to
  the file and raises the event count by one.\<close>

theorem disabled_gates_StartSession_only:
  assumes "\<not> IsEnabled s" and "sessionInv s"
  shows "StartSession name player mapF rad env s = (False, s) \<and>
    StopSession now s =
      (fst (StopSession now (s\<lparr>enabled := True\<rparr>)),
       (snd (StopSession now (s\<lparr>enabled := True\<rparr>)))\<lparr>enabled := False\<rparr>) \<and>
    record_call now c s = (record_call now c (s\<lparr>enabled := True\<rparr>))\<lparr>enabled := False\<rparr> \<and>
    (\<not> IsActive s \<longrightarrow> StopSession now s = (False, s) \<and> record_call now c s = s) \<and>
    (IsActive s \<longrightarrow>
       fst (StopSession now s) \<and> \<not> IsActive (snd (StopSession now s)) \<and>
       outFile (snd (StopSession now s)) = None) \<and>
    (IsActive s \<and> admitted c s \<and> outFile s = Some p \<and>
     unat (eventCount s) < unat (maxEvents s) \<longrightarrow>
       linesOf p (record_call now c s) = linesOf p s @ [line_of now c s] \<and>
       unat (eventCount (record_call now c s)) = Suc (unat (eventCount s)))"
proof -
  from assms(1) have e: "\<not> enabled s" by (simp add: IsEnabled_def)
  then have s: "s = (s\<lparr>enabled := True\<rparr>)\<lparr>enabled := False\<rparr>" by simp
  have 1: "StartSession name player mapF rad env s = (False, s)"
    using e by (simp add: StartSession_def)
  have 2: "StopSession now s =
      (fst (StopSession now (s\<lparr>enabled := True\<rparr>)),
       (snd (StopSession now (s\<lparr>enabled := True\<rparr>)))\<lparr>enabled := False\<rparr>)"
    by (subst s) (rule StopSession_enabled_update)
  have 3: "record_call now c s =
      (record_call now c (s\<lparr>enabled := True\<rparr>))\<lparr>enabled := False\<rparr>"
    by (subst s) (rule record_call_enabled_update)
  have 4: "\<not> IsActive s \<longrightarrow> StopSession now s = (False, s) \<and> record_call now c s = s"
  proof
    assume i: "\<not> IsActive s"
    with assms(2) have "outFile s = None" by (simp add: sessionInv_def)
    then have "record_call now c s = s" by (simp add: record_call_eq WriteEvent_closed)
    with i show "StopSession now s = (False, s) \<and> record_call now c s = s"
      by (simp add: IsActive_def StopSession_inactive)
  qed
  have 5: "IsActive s \<longrightarrow>
       fst (StopSession now s) \<and> \<not> IsActive (snd (StopSession now s)) \<and>
       outFile (snd (StopSession now s)) = None"
    by (simp add: IsActive_def StopSession_active)
  have 6: "IsActive s \<and> admitted c s \<and> outFile s = Some p \<and>
     unat (eventCount s) < unat (maxEvents s) \<longrightarrow>
       linesOf p (record_call now c s) = linesOf p s @ [line_of now c s] \<and>
       unat (eventCount (record_call now c s)) = Suc (unat (eventCount s))"
  proof
    assume a: "IsActive s \<and> admitted c s \<and> outFile s = Some p \<and>
      unat (eventCount s) < unat (maxEvents s)"
    then have o: "outFile s = Some p" and l: "unat (eventCount s) < unat (maxEvents s)"
      by simp_all
    from a WriteEvent_below(1,2) [OF o l, of "line_of now c s"]
    show "linesOf p (record_call now c s) = linesOf p s @ [line_of now c s] \<and>
       unat (eventCount (record_call now c s)) = Suc (unat (eventCount s))"
      by (simp add: record_call_eq)
  qed
  from 1 2 3 4 5 6 show ?thesis by blast
qed

theorem disabled_gates_StartSession_only_witness:
  "\<not> IsEnabled scenarioDisabled \<and> sessionInv scenarioDisabled \<and>
   IsActive scenarioDisabled \<and>
   admitted (Damage (Some (scenarioUnit ''A'' 110)) (Some (scenarioUnit ''B'' 300)) 500)
     scenarioDisabled \<and>
   outFile scenarioDisabled = Some scenarioFile \<and>
   unat (eventCount scenarioDisabled) < unat (maxEvents scenarioDisabled) \<and>
   StartSession ''boss2'' None 0 fzero scenarioEnv scenarioDisabled = (False, scenarioDisabled) \<and>
   fst (StopSession 3000000000 scenarioDisabled) \<and>
   \<not> IsActive (snd (StopSession 3000000000 scenarioDisabled)) \<and>
   outFile (snd (StopSession 3000000000 scenarioDisabled)) = None \<and>
   linesOf scenarioFile
     (record_call 3000000000
        (Damage (Some (scenarioUnit ''A'' 110)) (Some (scenarioUnit ''B'' 300)) 500)
        scenarioDisabled) =
     linesOf scenarioFile scenarioDisabled @
     [line_of 3000000000
        (Damage (Some (scenarioUnit ''A'' 110)) (Some (scenarioUnit ''B'' 300)) 500)
        scenarioDisabled] \<and>
   unat (eventCount (record_call 3000000000
        (Damage (Some (scenarioUnit ''A'' 110)) (Some (scenarioUnit ''B'' 300)) 500)
        scenarioDisabled)) = Suc (unat (eventCount scenarioDisabled)) \<and>
   \<not> IsEnabled initialRecorder \<and> sessionInv initialRecorder \<and>
   \<not> IsActive initialRecorder \<and>
   StopSession 3000000000 initialRecorder = (False, initialRecorder) \<and>
   record_call 3000000000 (LeaveCombat (Some (scenarioUnit ''A'' 110))) initialRecorder =
     initialRecorder"
proof -
  let ?c = "Damage (Some (scenarioUnit ''A'' 110)) (Some (scenarioUnit ''B'' 300)) 500"
  have d: "\<not> IsEnabled scenarioDisabled" by code_simp
  have v: "sessionInv scenarioDisabled" by code_simp
  have a: "IsActive scenarioDisabled" by code_simp
  have ad: "admitted ?c scenarioDisabled" by code_simp
  have o: "outFile scenarioDisabled = Some scenarioFile" by code_simp
  have "eventCount scenarioDisabled = 1" and "maxEvents scenarioDisabled = 100000"
    by code_simp+
  then have l: "unat (eventCount scenarioDisabled) < unat (maxEvents scenarioDisabled)"
    by simp
  have i: "\<not> IsEnabled initialRecorder" "sessionInv initialRecorder"
    "\<not> IsActive initialRecorder"
    by (simp_all add: IsEnabled_def IsActive_def sessionInv_def initialRecorder_def)
  note t = disabled_gates_StartSession_only
    [OF d v, of "''boss2''" None 0 fzero scenarioEnv 3000000000 ?c scenarioFile]
  from t have 1: "StartSession ''boss2'' None 0 fzero scenarioEnv scenarioDisabled =
      (False, scenarioDisabled)" by blast
  from t a have 2: "fst (StopSession 3000000000 scenarioDisabled)"
    "\<not> IsActive (snd (StopSession 3000000000 scenarioDisabled))"
    "outFile (snd (StopSession 3000000000 scenarioDisabled)) = None" by blast+
  from t a ad o l have 3: "linesOf scenarioFile (record_call 3000000000 ?c scenarioDisabled) =
     linesOf scenarioFile scenarioDisabled @ [line_of 3000000000 ?c scenarioDisabled]"
    "unat (eventCount (record_call 3000000000 ?c scenarioDisabled)) =
       Suc (unat (eventCount scenarioDisabled))" by blast+
  from disabled_gates_StartSession_only
    [OF i(1,2), of _ _ _ _ _ 3000000000 "LeaveCombat (Some (scenarioUnit ''A'' 110))"] i(3)
  have 4: "StopSession 3000000000 initialRecorder = (False, initialRecorder)"
    "record_call 3000000000 (LeaveCombat (Some (scenarioUnit ''A'' 110))) initialRecorder =
       initialRecorder" by blast+
  from d v a ad o l 1 2 3 i 4 show ?thesis by blast
qed

subsection \<open>Escaping of names\<close>

text \<open>Claim C7 on the code. \<^verbatim>\<open>EscapeJson\<close> has cases for the quote, the backslash,
  newline, carriage return and tab only. A name holding a backspace (\<^verbatim>\<open>0x08\<close>) and
  the control character \<^verbatim>\<open>0x01\<close> comes back unchanged, and the descriptor that
  \<^verbatim>\<open>FormatUnit\<close> prints for a unit of that name holds the raw backspace inside a
  JSON string. The escaping of the log appender, \<^verbatim>\<open>AppenderJsonl::JsonEscape\<close>,
  prints the same two characters as \<^verbatim>\<open>\b\<close> and \<^verbatim>\<open>\u0001\<close>.\<close>

theorem EscapeJson_leaves_control_characters:
  "EscapeJson [CHR ''a'', CHR 0x08, CHR 0x01, CHR ''b''] = [CHR ''a'', CHR 0x08, CHR 0x01, CHR ''b''] \<and>
   JsonEscape [CHR ''a'', CHR 0x08, CHR 0x01, CHR ''b''] =
     [CHR ''a'', CHR 0x5C, CHR ''b'', CHR 0x5C, CHR ''u'', CHR ''0'', CHR ''0'', CHR ''0'',
      CHR ''1'', CHR ''b''] \<and>
   CHR 0x08 \<in> set (FormatUnit (Some (scenarioUnit [CHR ''a'', CHR 0x08, CHR 0x01, CHR ''b''] 110)))"
  by code_simp

subsection \<open>The cap, the start line and the stop line\<close>

lemma write_events_below_cap:
  assumes "outFile s = Some p"
    and "unat (eventCount s) + length ls \<le> unat (maxEvents s)"
  shows "linesOf p (write_events ls s) = linesOf p s @ ls \<and>
         serverLog (write_events ls s) = serverLog s \<and>
         unat (eventCount (write_events ls s)) = unat (eventCount s) + length ls"
  using assms
proof (induction ls arbitrary: s)
  case Nil
  then show ?case by simp
next
  case (Cons l ls)
  let ?s' = "WriteEvent l s"
  from Cons.prems(2) have lt: "unat (eventCount s) < unat (maxEvents s)" by simp
  note below = WriteEvent_below [OF Cons.prems(1) lt, of l]
  have o: "outFile ?s' = Some p" by (simp add: WriteEvent_frame Cons.prems(1))
  have c: "unat (eventCount ?s') + length ls \<le> unat (maxEvents ?s')"
    using Cons.prems(2) by (simp add: below(2) WriteEvent_frame)
  from Cons.IH [OF o c] show ?case by (simp add: below)
qed

lemma length_lines_of:
  "length (lines_of cs s) = length (filter (\<lambda>(now, c). admitted c s) cs)"
  by (simp add: lines_of_filter)

lemma StopSession_below_cap:
  assumes "active s" and "outFile s = Some p"
    and "unat (eventCount s) < unat (maxEvents s)"
  shows "fst (StopSession now s)"
    and "linesOf p (snd (StopSession now s)) =
           linesOf p s @ [stopEventLine (GetSessionTime now s) (sessionName s) (eventCount s)]"
proof -
  show "fst (StopSession now s)" using assms(1) by (simp add: StopSession_def Let_def)
  have "linesOf p (snd (StopSession now s)) =
      linesOf p (WriteEvent (stopEventLine (GetSessionTime now s) (sessionName s) (eventCount s)) s)"
    using assms(1) by (simp add: StopSession_def Let_def linesOf_def)
  then show "linesOf p (snd (StopSession now s)) =
           linesOf p s @ [stopEventLine (GetSessionTime now s) (sessionName s) (eventCount s)]"
    by (simp add: WriteEvent_below(1) [OF assms(2,3)])
qed

lemma sessionInv_start_closed:
  assumes "StartSession name player mapF rad env s = (True, s1)" and "sessionInv s"
  shows "outFile s = None"
  using StartSession_True_conds(1) [OF assms(1)] assms(2)
  by (simp add: sessionInv_def IsActive_def)

lemma scenarioSession_started:
  "StartSession ''boss1'' (Some (scenarioUnit ''Gm'' 100)) 0 (f32 50 0) scenarioEnv
     (LoadConfig (scenarioConfig cap) initialRecorder) = (True, scenarioSession cap)"
proof -
  have "fst (StartSession ''boss1'' (Some (scenarioUnit ''Gm'' 100)) 0 (f32 50 0) scenarioEnv
     (LoadConfig (scenarioConfig cap) initialRecorder))"
    by (simp add: StartSession_def LoadConfig_def scenarioConfig_def initialRecorder_def
        scenarioEnv_def openTrunc_def Let_def)
  then show ?thesis by (simp add: scenarioSession_def prod_eq_iff)
qed

lemma scenario_config_loaded:
  "sessionInv (LoadConfig (scenarioConfig cap) initialRecorder)"
  "maxEvents (LoadConfig (scenarioConfig cap) initialRecorder) = cap"
  "outputDir (LoadConfig (scenarioConfig cap) initialRecorder) = ''recordings''"
  by (simp_all add: sessionInv_def IsActive_def LoadConfig_def scenarioConfig_def
      initialRecorder_def Let_def)

lemma scenario_file_name:
  "sessionFileName ''recordings'' ''boss1'' (timeBuf scenarioEnv) = scenarioFile"
  by (simp add: sessionFileName_def scenarioEnv_def scenarioFile_def)

text \<open>Claim C1, as stated, fails. The session of the scenario is started with a cap of
  2 and two admitted calls follow. The file then holds the start line and one data line,
  not two data lines: the start line was written through \<^verbatim>\<open>WriteEvent\<close> and took
  the first of the two places.\<close>

theorem cap_of_two_leaves_one_data_line:
  \<open>maxEvents (scenarioSession 2) = 2 \<and>
   length (lines_of admittedCalls (scenarioSession 2)) = 2 \<and>
   linesOf scenarioFile (record_calls admittedCalls (scenarioSession 2)) =
   [''{"t":0.000,"event":"record_start","session":"boss1","map":0,"file":"recordings/boss1_20260101_120000.jsonl"}'',
    ''{"t":0.001,"event":"damage","source":{"type":"player","name":"A","guid":"Player-A"},"target":{"type":"player","name":"B","guid":"Player-B"},"amount":500}'']\<close>
  by code_simp

text \<open>Claim C1, amended. Let a session be started with a cap \<open>maxEvents\<close> of at least
  1 and below \<open>2\<^sup>32 - 1\<close>, and let exactly \<open>maxEvents\<close> admitted calls follow. The start
  line counts against the cap: the file holds the start line and the lines of the first
  \<open>maxEvents - 1\<close> calls, \<open>maxEvents\<close> lines in all; the log has gained the start
  message and exactly one cap diagnostic; and one more call, admitted or not, changes
  nothing: no line and no diagnostic.\<close>

theorem cap_includes_start_line:
  assumes "StartSession name player mapF rad env s = (True, s1)"
    and "sessionInv s"
    and "1 \<le> unat (maxEvents s)" and "unat (maxEvents s) < 2 ^ 32 - 1"
    and "\<forall>(now, c) \<in> set cs. admitted c s1"
    and "length cs = unat (maxEvents s)"
  shows "linesOf (sessionFileName (outputDir s) name (timeBuf env)) (record_calls cs s1) =
      startEventLine name (mapFilter s1) (sessionFileName (outputDir s) name (timeBuf env)) #
      take (unat (maxEvents s) - 1) (map (\<lambda>(now, c). line_of now c s1) cs) \<and>
    length (linesOf (sessionFileName (outputDir s) name (timeBuf env)) (record_calls cs s1)) =
      unat (maxEvents s) \<and>
    serverLog (record_calls cs s1) =
      serverLog s @
      [LogStarted name (mapFilter s1) (radius s1)
         (sessionFileName (outputDir s) name (timeBuf env)),
       LogMaxEvents (maxEvents s) name] \<and>
    record_call now' c' (record_calls cs s1) = record_calls cs s1"
proof -
  let ?f = "sessionFileName (outputDir s) name (timeBuf env)"
  let ?s2 = "record_calls cs s1"
  let ?ls = "map (\<lambda>(now, c). line_of now c s1) cs"
  note closed = sessionInv_start_closed [OF assms(1,2)]
  note st = StartSession_started [OF assms(1) closed]
  from assms(3) have pos: "0 < unat (maxEvents s)" by simp
  note fl = StartSession_first_line [OF assms(1) closed pos]
  have s2: "?s2 = write_events ?ls s1"
    by (simp add: record_calls_eq lines_of_all_admitted [OF assms(5)])
  have le: "unat (eventCount s1) \<le> unat (maxEvents s1)"
    using assms(3) by (simp add: fl(2) st(4))
  have cap: "unat (maxEvents s1) < 2 ^ 32 - 1" using assms(4) by (simp add: st(4))
  note we = write_events_effect [OF st(1) le cap, of ?ls]
  have lines: "linesOf ?f ?s2 =
      startEventLine name (mapFilter s1) ?f # take (unat (maxEvents s) - 1) ?ls"
    using we by (simp add: s2 fl(1,2) st(4))
  have len: "length (linesOf ?f ?s2) = unat (maxEvents s)"
    using assms(3,6) by (simp add: lines)
  have log: "serverLog ?s2 =
      serverLog s @ [LogStarted name (mapFilter s1) (radius s1) ?f,
                     LogMaxEvents (maxEvents s) name]"
    using we assms(3,6) by (simp add: s2 fl(2,3) st(3,4))
  have "unat (eventCount ?s2) = Suc (unat (maxEvents s))"
    using we assms(6) by (simp add: s2 fl(2) st(4))
  then have "unat (maxEvents ?s2) < unat (eventCount ?s2)"
    by (simp add: s2 write_events_frame st(4))
  then have "WriteEvent l ?s2 = ?s2" for l by (rule WriteEvent_past_cap)
  then have nop: "record_call now' c' ?s2 = ?s2" by (simp add: record_call_eq)
  from lines len log nop show ?thesis by blast
qed

theorem cap_includes_start_line_witness:
  "StartSession ''boss1'' (Some (scenarioUnit ''Gm'' 100)) 0 (f32 50 0) scenarioEnv
     (LoadConfig (scenarioConfig 2) initialRecorder) = (True, scenarioSession 2) \<and>
   sessionInv (LoadConfig (scenarioConfig 2) initialRecorder) \<and>
   unat (maxEvents (LoadConfig (scenarioConfig 2) initialRecorder)) = 2 \<and>
   length admittedCalls = 2 \<and>
   length (lines_of admittedCalls (scenarioSession 2)) = 2 \<and>
   linesOf scenarioFile (record_calls admittedCalls (scenarioSession 2)) =
     startEventLine ''boss1'' (mapFilter (scenarioSession 2)) scenarioFile #
     take 1 (map (\<lambda>(now, c). line_of now c (scenarioSession 2)) admittedCalls) \<and>
   length (linesOf scenarioFile (record_calls admittedCalls (scenarioSession 2))) = 2 \<and>
   serverLog (record_calls admittedCalls (scenarioSession 2)) =
     serverLog (LoadConfig (scenarioConfig 2) initialRecorder) @
     [LogStarted ''boss1'' (mapFilter (scenarioSession 2)) (radius (scenarioSession 2))
        scenarioFile,
      LogMaxEvents 2 ''boss1''] \<and>
   record_call 3000000
       (Damage (Some (scenarioUnit ''A'' 110)) (Some (scenarioUnit ''B'' 300)) 1)
       (record_calls admittedCalls (scenarioSession 2)) =
     record_calls admittedCalls (scenarioSession 2)"
proof -
  let ?s = "LoadConfig (scenarioConfig 2) initialRecorder"
  have m: "unat (maxEvents ?s) = 2" by (simp add: scenario_config_loaded)
  then have lo: "1 \<le> unat (maxEvents ?s)" and hi: "unat (maxEvents ?s) < 2 ^ 32 - 1"
    by simp_all
  have a: "PassesFilters (Some (scenarioUnit ''A'' 110)) (scenarioSession 2)" by code_simp
  have adm: "\<forall>(now, c) \<in> set admittedCalls. admitted c (scenarioSession 2)"
    by (simp add: admittedCalls_def a)
  have len: "length admittedCalls = unat (maxEvents ?s)" by (simp add: m admittedCalls_def)
  have two: "length (lines_of admittedCalls (scenarioSession 2)) = 2"
    by (simp add: admittedCalls_def a)
  note t = cap_includes_start_line
    [OF scenarioSession_started scenario_config_loaded(1) lo hi adm len,
     of 3000000 "Damage (Some (scenarioUnit ''A'' 110)) (Some (scenarioUnit ''B'' 300)) 1"]
  from t m len two scenarioSession_started [of 2] scenario_config_loaded(1) [of 2]
  show ?thesis
    by (simp add: scenario_config_loaded scenario_file_name)
qed

text \<open>Claim C2 on the code. In the session with a cap of 2, after the two admitted calls
  the cap is reached (the event count is 3) and the session is still active.
  \<^verbatim>\<open>StopSession\<close> returns success, closes the stream and marks the session inactive,
  but the stop line it hands to \<^verbatim>\<open>WriteEvent\<close> is dropped at the cap: the file ends
  with the data line, with no \<^verbatim>\<open>record_stop\<close> line. The same happens with a cap of
  1 when the session is stopped at once: the file holds the start line only.\<close>

theorem StopSession_at_cap_writes_no_stop_line:
  \<open>IsActive (record_calls admittedCalls (scenarioSession 2)) \<and>
   maxEvents (record_calls admittedCalls (scenarioSession 2)) = 2 \<and>
   eventCount (record_calls admittedCalls (scenarioSession 2)) = 3 \<and>
   fst (StopSession 3000000000 (record_calls admittedCalls (scenarioSession 2))) \<and>
   \<not> IsActive (snd (StopSession 3000000000 (record_calls admittedCalls (scenarioSession 2)))) \<and>
   outFile (snd (StopSession 3000000000 (record_calls admittedCalls (scenarioSession 2)))) = None \<and>
   linesOf scenarioFile
     (snd (StopSession 3000000000 (record_calls admittedCalls (scenarioSession 2)))) =
   [''{"t":0.000,"event":"record_start","session":"boss1","map":0,"file":"recordings/boss1_20260101_120000.jsonl"}'',
    ''{"t":0.001,"event":"damage","source":{"type":"player","name":"A","guid":"Player-A"},"target":{"type":"player","name":"B","guid":"Player-B"},"amount":500}''] \<and>
   linesOf scenarioFile (snd (StopSession 3000000000 (scenarioSession 1))) =
   [''{"t":0.000,"event":"record_start","session":"boss1","map":0,"file":"recordings/boss1_20260101_120000.jsonl"}'']\<close>
  by code_simp

text \<open>Claim C3, as stated, fails. In the scenario exactly one of the two damage calls is
  admitted, and the \<^verbatim>\<open>record_stop\<close> line written by \<^verbatim>\<open>StopSession\<close> has
  \<^verbatim>\<open>events_captured\<close> equal to 2: the start line was counted as well.\<close>

theorem scenario_stop_line_reports_two_events:
  \<open>length (lines_of scenarioCalls (scenarioSession 100000)) = 1 \<and>
   linesOf scenarioFile
     (snd (StopSession 1500000000 (record_calls scenarioCalls (scenarioSession 100000)))) =
   [''{"t":0.000,"event":"record_start","session":"boss1","map":0,"file":"recordings/boss1_20260101_120000.jsonl"}'',
    ''{"t":0.001,"event":"damage","source":{"type":"player","name":"A","guid":"Player-A"},"target":{"type":"player","name":"B","guid":"Player-B"},"amount":500}'',
    ''{"t":1.500,"event":"record_stop","session":"boss1","duration":1.500,"events_captured":2}'']\<close>
  by code_simp

text \<open>Claim C3, amended. Let a session be started and any calls follow, so few of them
  admitted that the session stays below its cap. Then the event count is 1, for the
  start line, plus the number of admitted calls (each admitted call adds one, a rejected
  call nothing), \<^verbatim>\<open>StopSession\<close> returns success, and the file is the start line,
  the lines of the admitted calls, and the stop line whose \<^verbatim>\<open>events_captured\<close>
  field is that event count.\<close>

theorem events_captured_counts_start_line:
  assumes "StartSession name player mapF rad env s = (True, s1)"
    and "sessionInv s"
    and "Suc (length (filter (\<lambda>(now, c). admitted c s1) cs)) < unat (maxEvents s)"
  shows "fst (StopSession now (record_calls cs s1)) \<and>
    unat (eventCount (record_calls cs s1)) =
      Suc (length (filter (\<lambda>(now, c). admitted c s1) cs)) \<and>
    linesOf (sessionFileName (outputDir s) name (timeBuf env))
        (snd (StopSession now (record_calls cs s1))) =
      startEventLine name (mapFilter s1) (sessionFileName (outputDir s) name (timeBuf env)) #
      lines_of cs s1 @
      [stopEventLine (GetSessionTime now s1) name (eventCount (record_calls cs s1))]"
proof -
  let ?f = "sessionFileName (outputDir s) name (timeBuf env)"
  let ?s2 = "record_calls cs s1"
  note closed = sessionInv_start_closed [OF assms(1,2)]
  note st = StartSession_started [OF assms(1) closed]
  from assms(3) have pos: "0 < unat (maxEvents s)" by simp
  note fl = StartSession_first_line [OF assms(1) closed pos]
  have s2: "?s2 = write_events (lines_of cs s1) s1" by (rule record_calls_eq)
  have room: "unat (eventCount s1) + length (lines_of cs s1) \<le> unat (maxEvents s1)"
    using assms(3) by (simp add: fl(2) st(4) length_lines_of)
  note we = write_events_below_cap [OF st(1) room]
  have cnt: "unat (eventCount ?s2) = Suc (length (filter (\<lambda>(now, c). admitted c s1) cs))"
    using we by (simp add: s2 fl(2) length_lines_of)
  have lines: "linesOf ?f ?s2 = startEventLine name (mapFilter s1) ?f # lines_of cs s1"
    using we by (simp add: s2 fl(1))
  have a: "active ?s2" and o: "outFile ?s2 = Some ?f" and n: "sessionName ?s2 = name"
    and m: "maxEvents ?s2 = maxEvents s"
    by (simp_all add: s2 write_events_frame st)
  have t: "GetSessionTime now ?s2 = GetSessionTime now s1"
    by (simp add: s2 GetSessionTime_write_events)
  have lt: "unat (eventCount ?s2) < unat (maxEvents ?s2)"
    using assms(3) by (simp add: cnt m)
  note stop = StopSession_below_cap [OF a o lt, of now]
  from stop cnt show ?thesis by (simp add: lines n t)
qed

theorem events_captured_counts_start_line_witness:
  "StartSession ''boss1'' (Some (scenarioUnit ''Gm'' 100)) 0 (f32 50 0) scenarioEnv
     (LoadConfig (scenarioConfig 100000) initialRecorder) = (True, scenarioSession 100000) \<and>
   sessionInv (LoadConfig (scenarioConfig 100000) initialRecorder) \<and>
   Suc (length (filter (\<lambda>(now, c). admitted c (scenarioSession 100000)) scenarioCalls)) <
     unat (maxEvents (LoadConfig (scenarioConfig 100000) initialRecorder)) \<and>
   fst (StopSession 1500000000 (record_calls scenarioCalls (scenarioSession 100000))) \<and>
   unat (eventCount (record_calls scenarioCalls (scenarioSession 100000))) = 2 \<and>
   linesOf scenarioFile
       (snd (StopSession 1500000000 (record_calls scenarioCalls (scenarioSession 100000)))) =
     startEventLine ''boss1'' (mapFilter (scenarioSession 100000)) scenarioFile #
     lines_of scenarioCalls (scenarioSession 100000) @
     [stopEventLine (GetSessionTime 1500000000 (scenarioSession 100000)) ''boss1''
        (eventCount (record_calls scenarioCalls (scenarioSession 100000)))]"
proof -
  let ?s = "LoadConfig (scenarioConfig 100000) initialRecorder"
  have k: "length (filter (\<lambda>(now, c). admitted c (scenarioSession 100000)) scenarioCalls) = 1"
    by code_simp
  have h: "Suc (length (filter (\<lambda>(now, c). admitted c (scenarioSession 100000)) scenarioCalls)) <
     unat (maxEvents ?s)"
    by (simp add: k scenario_config_loaded)
  note t = events_captured_counts_start_line
    [OF scenarioSession_started scenario_config_loaded(1) h, of 1500000000]
  from t h scenarioSession_started [of 100000] scenario_config_loaded(1) [of 100000]
  show ?thesis
    by (simp add: k scenario_config_loaded(3) scenario_file_name)
qed

end
